theory Spec2Isabelle
  imports Main
begin

section \<open>Python strings\<close>

text \<open>
  A Python \<open>str\<close> is a sequence of Unicode code points; a code point is a natural number.
  \<open>ascii\<close> writes a literal of the source as its code points.
\<close>

type_synonym pystr = "nat list"

definition ascii :: "string \<Rightarrow> pystr" where
  "ascii s = map of_char s"

text \<open>
  \<open>str.isspace\<close> on one code point: the 29 code points Python 3 treats as whitespace
  (U+0009..U+000D, U+001C..U+0020, U+0085, U+00A0, U+1680, U+2000..U+200A, U+2028, U+2029,
  U+202F, U+205F, U+3000). \<open>str.strip()\<close> with no argument removes them at both ends.
\<close>

definition isspace :: "nat \<Rightarrow> bool" where
  "isspace c \<longleftrightarrow>
     (9 \<le> c \<and> c \<le> 13) \<or> (28 \<le> c \<and> c \<le> 32) \<or> c = 133 \<or> c = 160 \<or> c = 5760 \<or>
     (8192 \<le> c \<and> c \<le> 8202) \<or> c = 8232 \<or> c = 8233 \<or> c = 8239 \<or> c = 8287 \<or> c = 12288"

definition py_strip :: "pystr \<Rightarrow> pystr" where
  "py_strip s = rev (dropWhile isspace (rev (dropWhile isspace s)))"

text \<open>\<open>s.replace(old, new)\<close> for one-code-point \<open>old\<close> and \<open>new\<close>, as in \<open>replace("\xa0", " ")\<close>.\<close>

definition py_replace :: "nat \<Rightarrow> nat \<Rightarrow> pystr \<Rightarrow> pystr" where
  "py_replace old new s = map (\<lambda>c. if c = old then new else c) s"

text \<open>
  \<open>str.upper()\<close> maps each code point on its own, by the full upper-case mapping of the
  Unicode character database (version 14.0.0, the one of CPython 3.11); one code point
  may become several, as U+00DF becomes \<open>SS\<close>. A rule \<open>(lo, hi, step, tlo, ms)\<close> says
  that the code points \<open>lo\<close>, \<open>lo + step\<close>, ... up to \<open>hi\<close> change: \<open>lo + k\<close> becomes
  \<open>tlo + k\<close> followed by the code points \<open>ms\<close>. \<open>upper_table\<close> holds the rules for
  every code point above U+007F that \<open>str.upper()\<close> changes, sorted; the first rule that
  applies is used. ASCII is decided first, as CPython does.
\<close>

type_synonym case_rule = "nat \<times> nat \<times> nat \<times> nat \<times> nat list"

fun applies :: "case_rule \<Rightarrow> nat \<Rightarrow> bool" where
  "applies (lo, hi, step, tlo, ms) c \<longleftrightarrow> lo \<le> c \<and> c \<le> hi \<and> (c - lo) mod step = 0"

fun result :: "case_rule \<Rightarrow> nat \<Rightarrow> pystr" where
  "result (lo, hi, step, tlo, ms) c = (tlo + (c - lo)) # ms"

definition upper_with :: "case_rule list \<Rightarrow> nat \<Rightarrow> pystr" where
  "upper_with table c =
     (if c < 128 then (if 97 \<le> c \<and> c \<le> 122 then [c - 32] else [c])
      else case find (\<lambda>r. applies r c) table of Some r \<Rightarrow> result r c | None \<Rightarrow> [c])"

text \<open>The table: Latin-1, Latin Extended, IPA, Greek, Cyrillic, Armenian, Georgian,
  Cherokee, the extended Latin and Greek blocks with their multi-letter mappings, letter-like
  symbols, Glagolitic, Coptic, the ligatures, full-width Latin, Deseret, Osage, Vithkuqi,
  Old Hungarian, Warang Citi, Medefaidrin and Adlam.\<close>

definition upper_table :: "case_rule list" where
  "upper_table =
     [(181, 181, 2, 924, []), (223, 223, 2, 83, [83]), (224, 246, 1, 192, []),
      (248, 254, 1, 216, []), (255, 255, 2, 376, []), (257, 303, 2, 256, []),
      (305, 305, 2, 73, []), (307, 311, 2, 306, []), (314, 328, 2, 313, []),
      (329, 329, 2, 700, [78]), (331, 375, 2, 330, []), (378, 382, 2, 377, []),
      (383, 383, 2, 83, []), (384, 384, 2, 579, []), (387, 389, 2, 386, []),
      (392, 392, 2, 391, []), (396, 396, 2, 395, []), (402, 402, 2, 401, []),
      (405, 405, 2, 502, []), (409, 409, 2, 408, []), (410, 410, 2, 573, []),
      (414, 414, 2, 544, []), (417, 421, 2, 416, []), (424, 424, 2, 423, []),
      (429, 429, 2, 428, []), (432, 432, 2, 431, []), (436, 438, 2, 435, []),
      (441, 441, 2, 440, []), (445, 445, 2, 444, []), (447, 447, 2, 503, []),
      (453, 453, 2, 452, []), (454, 454, 2, 452, []), (456, 456, 2, 455, []),
      (457, 457, 2, 455, []), (459, 459, 2, 458, []), (460, 460, 2, 458, []),
      (462, 476, 2, 461, []), (477, 477, 2, 398, []), (479, 495, 2, 478, []),
      (496, 496, 2, 74, [780]), (498, 498, 2, 497, []), (499, 499, 2, 497, []),
      (501, 501, 2, 500, []), (505, 543, 2, 504, []), (547, 563, 2, 546, []),
      (572, 572, 2, 571, []), (575, 576, 1, 11390, []), (578, 578, 2, 577, []),
      (583, 591, 2, 582, []), (592, 592, 2, 11375, []), (593, 593, 2, 11373, []),
      (594, 594, 2, 11376, []), (595, 595, 2, 385, []), (596, 596, 2, 390, []),
      (598, 599, 1, 393, []), (601, 601, 2, 399, []), (603, 603, 2, 400, []),
      (604, 604, 2, 42923, []), (608, 608, 2, 403, []), (609, 609, 2, 42924, []),
      (611, 611, 2, 404, []), (613, 613, 2, 42893, []), (614, 614, 2, 42922, []),
      (616, 616, 2, 407, []), (617, 617, 2, 406, []), (618, 618, 2, 42926, []),
      (619, 619, 2, 11362, []), (620, 620, 2, 42925, []), (623, 623, 2, 412, []),
      (625, 625, 2, 11374, []), (626, 626, 2, 413, []), (629, 629, 2, 415, []),
      (637, 637, 2, 11364, []), (640, 640, 2, 422, []), (642, 642, 2, 42949, []),
      (643, 643, 2, 425, []), (647, 647, 2, 42929, []), (648, 648, 2, 430, []),
      (649, 649, 2, 580, []), (650, 651, 1, 433, []), (652, 652, 2, 581, []),
      (658, 658, 2, 439, []), (669, 669, 2, 42930, []), (670, 670, 2, 42928, []),
      (837, 837, 2, 921, []), (881, 883, 2, 880, []), (887, 887, 2, 886, []),
      (891, 893, 1, 1021, []), (912, 912, 2, 921, [776, 769]), (940, 940, 2, 902, []),
      (941, 943, 1, 904, []), (944, 944, 2, 933, [776, 769]), (945, 961, 1, 913, []),
      (962, 962, 2, 931, []), (963, 971, 1, 931, []), (972, 972, 2, 908, []),
      (973, 974, 1, 910, []), (976, 976, 2, 914, []), (977, 977, 2, 920, []),
      (981, 981, 2, 934, []), (982, 982, 2, 928, []), (983, 983, 2, 975, []),
      (985, 1007, 2, 984, []), (1008, 1008, 2, 922, []), (1009, 1009, 2, 929, []),
      (1010, 1010, 2, 1017, []), (1011, 1011, 2, 895, []), (1013, 1013, 2, 917, []),
      (1016, 1016, 2, 1015, []), (1019, 1019, 2, 1018, []), (1072, 1103, 1, 1040, []),
      (1104, 1119, 1, 1024, []), (1121, 1153, 2, 1120, []), (1163, 1215, 2, 1162, []),
      (1218, 1230, 2, 1217, []), (1231, 1231, 2, 1216, []), (1233, 1327, 2, 1232, []),
      (1377, 1414, 1, 1329, []), (1415, 1415, 2, 1333, [1362]), (4304, 4346, 1, 7312, []),
      (4349, 4351, 1, 7357, []), (5112, 5117, 1, 5104, []), (7296, 7296, 2, 1042, []),
      (7297, 7297, 2, 1044, []), (7298, 7298, 2, 1054, []), (7299, 7300, 1, 1057, []),
      (7301, 7301, 2, 1058, []), (7302, 7302, 2, 1066, []), (7303, 7303, 2, 1122, []),
      (7304, 7304, 2, 42570, []), (7545, 7545, 2, 42877, []), (7549, 7549, 2, 11363, []),
      (7566, 7566, 2, 42950, []), (7681, 7829, 2, 7680, []), (7830, 7830, 2, 72, [817]),
      (7831, 7831, 2, 84, [776]), (7832, 7832, 2, 87, [778]), (7833, 7833, 2, 89, [778]),
      (7834, 7834, 2, 65, [702]), (7835, 7835, 2, 7776, []), (7841, 7935, 2, 7840, []),
      (7936, 7943, 1, 7944, []), (7952, 7957, 1, 7960, []), (7968, 7975, 1, 7976, []),
      (7984, 7991, 1, 7992, []), (8000, 8005, 1, 8008, []), (8016, 8016, 2, 933, [787]),
      (8017, 8017, 2, 8025, []), (8018, 8018, 2, 933, [787, 768]), (8019, 8019, 2, 8027, []),
      (8020, 8020, 2, 933, [787, 769]), (8021, 8021, 2, 8029, []),
      (8022, 8022, 2, 933, [787, 834]), (8023, 8023, 2, 8031, []), (8032, 8039, 1, 8040, []),
      (8048, 8049, 1, 8122, []), (8050, 8053, 1, 8136, []), (8054, 8055, 1, 8154, []),
      (8056, 8057, 1, 8184, []), (8058, 8059, 1, 8170, []), (8060, 8061, 1, 8186, []),
      (8064, 8064, 2, 7944, [921]), (8065, 8065, 2, 7945, [921]), (8066, 8066, 2, 7946, [921]),
      (8067, 8067, 2, 7947, [921]), (8068, 8068, 2, 7948, [921]), (8069, 8069, 2, 7949, [921]),
      (8070, 8070, 2, 7950, [921]), (8071, 8071, 2, 7951, [921]), (8072, 8072, 2, 7944, [921]),
      (8073, 8073, 2, 7945, [921]), (8074, 8074, 2, 7946, [921]), (8075, 8075, 2, 7947, [921]),
      (8076, 8076, 2, 7948, [921]), (8077, 8077, 2, 7949, [921]), (8078, 8078, 2, 7950, [921]),
      (8079, 8079, 2, 7951, [921]), (8080, 8080, 2, 7976, [921]), (8081, 8081, 2, 7977, [921]),
      (8082, 8082, 2, 7978, [921]), (8083, 8083, 2, 7979, [921]), (8084, 8084, 2, 7980, [921]),
      (8085, 8085, 2, 7981, [921]), (8086, 8086, 2, 7982, [921]), (8087, 8087, 2, 7983, [921]),
      (8088, 8088, 2, 7976, [921]), (8089, 8089, 2, 7977, [921]), (8090, 8090, 2, 7978, [921]),
      (8091, 8091, 2, 7979, [921]), (8092, 8092, 2, 7980, [921]), (8093, 8093, 2, 7981, [921]),
      (8094, 8094, 2, 7982, [921]), (8095, 8095, 2, 7983, [921]), (8096, 8096, 2, 8040, [921]),
      (8097, 8097, 2, 8041, [921]), (8098, 8098, 2, 8042, [921]), (8099, 8099, 2, 8043, [921]),
      (8100, 8100, 2, 8044, [921]), (8101, 8101, 2, 8045, [921]), (8102, 8102, 2, 8046, [921]),
      (8103, 8103, 2, 8047, [921]), (8104, 8104, 2, 8040, [921]), (8105, 8105, 2, 8041, [921]),
      (8106, 8106, 2, 8042, [921]), (8107, 8107, 2, 8043, [921]), (8108, 8108, 2, 8044, [921]),
      (8109, 8109, 2, 8045, [921]), (8110, 8110, 2, 8046, [921]), (8111, 8111, 2, 8047, [921]),
      (8112, 8113, 1, 8120, []), (8114, 8114, 2, 8122, [921]), (8115, 8115, 2, 913, [921]),
      (8116, 8116, 2, 902, [921]), (8118, 8118, 2, 913, [834]),
      (8119, 8119, 2, 913, [834, 921]), (8124, 8124, 2, 913, [921]), (8126, 8126, 2, 921, []),
      (8130, 8130, 2, 8138, [921]), (8131, 8131, 2, 919, [921]), (8132, 8132, 2, 905, [921]),
      (8134, 8134, 2, 919, [834]), (8135, 8135, 2, 919, [834, 921]),
      (8140, 8140, 2, 919, [921]), (8144, 8145, 1, 8152, []), (8146, 8146, 2, 921, [776, 768]),
      (8147, 8147, 2, 921, [776, 769]), (8150, 8150, 2, 921, [834]),
      (8151, 8151, 2, 921, [776, 834]), (8160, 8161, 1, 8168, []),
      (8162, 8162, 2, 933, [776, 768]), (8163, 8163, 2, 933, [776, 769]),
      (8164, 8164, 2, 929, [787]), (8165, 8165, 2, 8172, []), (8166, 8166, 2, 933, [834]),
      (8167, 8167, 2, 933, [776, 834]), (8178, 8178, 2, 8186, [921]),
      (8179, 8179, 2, 937, [921]), (8180, 8180, 2, 911, [921]), (8182, 8182, 2, 937, [834]),
      (8183, 8183, 2, 937, [834, 921]), (8188, 8188, 2, 937, [921]), (8526, 8526, 2, 8498, []),
      (8560, 8575, 1, 8544, []), (8580, 8580, 2, 8579, []), (9424, 9449, 1, 9398, []),
      (11312, 11359, 1, 11264, []), (11361, 11361, 2, 11360, []), (11365, 11365, 2, 570, []),
      (11366, 11366, 2, 574, []), (11368, 11372, 2, 11367, []), (11379, 11379, 2, 11378, []),
      (11382, 11382, 2, 11381, []), (11393, 11491, 2, 11392, []), (11500, 11502, 2, 11499, []),
      (11507, 11507, 2, 11506, []), (11520, 11557, 1, 4256, []), (11559, 11559, 2, 4295, []),
      (11565, 11565, 2, 4301, []), (42561, 42605, 2, 42560, []), (42625, 42651, 2, 42624, []),
      (42787, 42799, 2, 42786, []), (42803, 42863, 2, 42802, []), (42874, 42876, 2, 42873, []),
      (42879, 42887, 2, 42878, []), (42892, 42892, 2, 42891, []), (42897, 42899, 2, 42896, []),
      (42900, 42900, 2, 42948, []), (42903, 42921, 2, 42902, []), (42933, 42947, 2, 42932, []),
      (42952, 42954, 2, 42951, []), (42961, 42961, 2, 42960, []), (42967, 42969, 2, 42966, []),
      (42998, 42998, 2, 42997, []), (43859, 43859, 2, 42931, []), (43888, 43967, 1, 5024, []),
      (64256, 64256, 2, 70, [70]), (64257, 64257, 2, 70, [73]), (64258, 64258, 2, 70, [76]),
      (64259, 64259, 2, 70, [70, 73]), (64260, 64260, 2, 70, [70, 76]),
      (64261, 64261, 2, 83, [84]), (64262, 64262, 2, 83, [84]),
      (64275, 64275, 2, 1348, [1350]), (64276, 64276, 2, 1348, [1333]),
      (64277, 64277, 2, 1348, [1339]), (64278, 64278, 2, 1358, [1350]),
      (64279, 64279, 2, 1348, [1341]), (65345, 65370, 1, 65313, []),
      (66600, 66639, 1, 66560, []), (66776, 66811, 1, 66736, []), (66967, 66977, 1, 66928, []),
      (66979, 66993, 1, 66940, []), (66995, 67001, 1, 66956, []), (67003, 67004, 1, 66964, []),
      (68800, 68850, 1, 68736, []), (71872, 71903, 1, 71840, []), (93792, 93823, 1, 93760, []),
      (125218, 125251, 1, 125184, [])]"

definition upper_cp :: "nat \<Rightarrow> pystr" where
  "upper_cp c = upper_with upper_table c"

definition py_upper :: "pystr \<Rightarrow> pystr" where
  "py_upper s = concat (map upper_cp s)"

definition startswith :: "pystr \<Rightarrow> pystr \<Rightarrow> bool" where
  "startswith s p \<longleftrightarrow> take (length p) s = p"

section \<open>Cell values\<close>

text \<open>
  What a cell or a column label of a scraped table holds: text, an integer, or a float.
  The program never computes with a float, it only converts it to text, so a float is
  carried by its \<open>repr\<close> (which is what \<open>str\<close> returns for it); the missing-value marker
  NaN is the float whose text is \<open>nan\<close>.
\<close>

datatype pyval = PStr pystr | PInt int | PFloat pystr

definition NaN :: pyval where
  "NaN = PFloat (ascii ''nan'')"

fun dec :: "nat \<Rightarrow> pystr" where
  "dec n = (if n < 10 then [48 + n] else dec (n div 10) @ [48 + n mod 10])"

declare dec.simps [simp del]

definition str_int :: "int \<Rightarrow> pystr" where
  "str_int i = (if i < 0 then 45 # dec (nat (- i)) else dec (nat i))"

fun py_str :: "pyval \<Rightarrow> pystr" where
  "py_str (PStr s) = s"
| "py_str (PInt i) = str_int i"
| "py_str (PFloat r) = r"

section \<open>The label normaliser\<close>

text \<open>\<^verbatim>\<open>def _norm(x): return str(x).replace("\xa0", " ").strip().upper()\<close>\<close>

definition py_norm :: "pyval \<Rightarrow> pystr" where
  "py_norm x = py_upper (py_strip (py_replace 160 32 (py_str x)))"

definition CANON :: "pystr list" where
  "CANON = map ascii [''SCRIP'', ''LDCP'', ''OPEN'', ''HIGH'', ''LOW'', ''CURRENT'', ''CHANGE'', ''VOLUME'']"

definition CANON_SET :: "pystr set" where
  "CANON_SET = set CANON"


text \<open>A string that \<open>strip()\<close> leaves alone: empty, or with no whitespace at either end.\<close>

definition stripped :: "pystr \<Rightarrow> bool" where
  "stripped s \<longleftrightarrow> s = [] \<or> (\<not> isspace (hd s) \<and> \<not> isspace (last s))"

section \<open>Checking the upper-case table\<close>

text \<open>
  What the idempotence of \<open>_norm\<close> needs from the table is that no code point a rule
  produces is itself changed by a rule, or is whitespace. The rules are kept a second
  time as a search tree (\<open>inorder upper_tree = upper_table\<close>), so that the code points a rule
  produces, \<open>a\<close>, \<open>a + s\<close>, ... up to \<open>b\<close>, are compared with few rules: \<open>tree_free\<close> says
  that no rule of the tree applies to any of them, given that the rules are in ascending
  order without overlap (\<open>chain\<close>).
\<close>

datatype case_tree = Leaf | Node case_tree case_rule case_tree

fun inorder :: "case_tree \<Rightarrow> case_rule list" where
  "inorder Leaf = []"
| "inorder (Node l r t) = inorder l @ r # inorder t"

definition upper_tree :: case_tree where
  "upper_tree =
     Node (Node (Node (Node (Node (Node (Node (Node (Node Leaf (181, 181, 2, 924, []) Leaf)
     (223, 223, 2, 83, [83]) Leaf) (224, 246, 1, 192, []) (Node Leaf (248, 254, 1, 216, [])
     Leaf)) (255, 255, 2, 376, []) (Node (Node (Node Leaf (257, 303, 2, 256, []) Leaf) (305,
     305, 2, 73, []) Leaf) (307, 311, 2, 306, []) (Node Leaf (314, 328, 2, 313, []) Leaf)))
     (329, 329, 2, 700, [78]) (Node (Node (Node (Node Leaf (331, 375, 2, 330, []) Leaf) (378,
     382, 2, 377, []) Leaf) (383, 383, 2, 83, []) (Node Leaf (384, 384, 2, 579, []) Leaf))
     (387, 389, 2, 386, []) (Node (Node Leaf (392, 392, 2, 391, []) Leaf) (396, 396, 2, 395,
     []) (Node Leaf (402, 402, 2, 401, []) Leaf)))) (405, 405, 2, 502, []) (Node (Node (Node
     (Node (Node Leaf (409, 409, 2, 408, []) Leaf) (410, 410, 2, 573, []) Leaf) (414, 414, 2,
     544, []) (Node Leaf (417, 421, 2, 416, []) Leaf)) (424, 424, 2, 423, []) (Node (Node
     (Node Leaf (429, 429, 2, 428, []) Leaf) (432, 432, 2, 431, []) Leaf) (436, 438, 2, 435,
     []) (Node Leaf (441, 441, 2, 440, []) Leaf))) (445, 445, 2, 444, []) (Node (Node (Node
     (Node Leaf (447, 447, 2, 503, []) Leaf) (453, 453, 2, 452, []) Leaf) (454, 454, 2, 452,
     []) (Node Leaf (456, 456, 2, 455, []) Leaf)) (457, 457, 2, 455, []) (Node (Node Leaf
     (459, 459, 2, 458, []) Leaf) (460, 460, 2, 458, []) (Node Leaf (462, 476, 2, 461, [])
     Leaf))))) (477, 477, 2, 398, []) (Node (Node (Node (Node (Node (Node Leaf (479, 495, 2,
     478, []) Leaf) (496, 496, 2, 74, [780]) Leaf) (498, 498, 2, 497, []) (Node Leaf (499,
     499, 2, 497, []) Leaf)) (501, 501, 2, 500, []) (Node (Node (Node Leaf (505, 543, 2, 504,
     []) Leaf) (547, 563, 2, 546, []) Leaf) (572, 572, 2, 571, []) (Node Leaf (575, 576, 1,
     11390, []) Leaf))) (578, 578, 2, 577, []) (Node (Node (Node (Node Leaf (583, 591, 2,
     582, []) Leaf) (592, 592, 2, 11375, []) Leaf) (593, 593, 2, 11373, []) (Node Leaf (594,
     594, 2, 11376, []) Leaf)) (595, 595, 2, 385, []) (Node (Node Leaf (596, 596, 2, 390, [])
     Leaf) (598, 599, 1, 393, []) (Node Leaf (601, 601, 2, 399, []) Leaf)))) (603, 603, 2,
     400, []) (Node (Node (Node (Node (Node Leaf (604, 604, 2, 42923, []) Leaf) (608, 608, 2,
     403, []) Leaf) (609, 609, 2, 42924, []) (Node Leaf (611, 611, 2, 404, []) Leaf)) (613,
     613, 2, 42893, []) (Node (Node Leaf (614, 614, 2, 42922, []) Leaf) (616, 616, 2, 407,
     []) (Node Leaf (617, 617, 2, 406, []) Leaf))) (618, 618, 2, 42926, []) (Node (Node (Node
     (Node Leaf (619, 619, 2, 11362, []) Leaf) (620, 620, 2, 42925, []) Leaf) (623, 623, 2,
     412, []) (Node Leaf (625, 625, 2, 11374, []) Leaf)) (626, 626, 2, 413, []) (Node (Node
     Leaf (629, 629, 2, 415, []) Leaf) (637, 637, 2, 11364, []) (Node Leaf (640, 640, 2, 422,
     []) Leaf)))))) (642, 642, 2, 42949, []) (Node (Node (Node (Node (Node (Node (Node Leaf
     (643, 643, 2, 425, []) Leaf) (647, 647, 2, 42929, []) Leaf) (648, 648, 2, 430, []) (Node
     Leaf (649, 649, 2, 580, []) Leaf)) (650, 651, 1, 433, []) (Node (Node (Node Leaf (652,
     652, 2, 581, []) Leaf) (658, 658, 2, 439, []) Leaf) (669, 669, 2, 42930, []) (Node Leaf
     (670, 670, 2, 42928, []) Leaf))) (837, 837, 2, 921, []) (Node (Node (Node (Node Leaf
     (881, 883, 2, 880, []) Leaf) (887, 887, 2, 886, []) Leaf) (891, 893, 1, 1021, []) (Node
     Leaf (912, 912, 2, 921, [776, 769]) Leaf)) (940, 940, 2, 902, []) (Node (Node Leaf (941,
     943, 1, 904, []) Leaf) (944, 944, 2, 933, [776, 769]) (Node Leaf (945, 961, 1, 913, [])
     Leaf)))) (962, 962, 2, 931, []) (Node (Node (Node (Node (Node Leaf (963, 971, 1, 931,
     []) Leaf) (972, 972, 2, 908, []) Leaf) (973, 974, 1, 910, []) (Node Leaf (976, 976, 2,
     914, []) Leaf)) (977, 977, 2, 920, []) (Node (Node (Node Leaf (981, 981, 2, 934, [])
     Leaf) (982, 982, 2, 928, []) Leaf) (983, 983, 2, 975, []) (Node Leaf (985, 1007, 2, 984,
     []) Leaf))) (1008, 1008, 2, 922, []) (Node (Node (Node (Node Leaf (1009, 1009, 2, 929,
     []) Leaf) (1010, 1010, 2, 1017, []) Leaf) (1011, 1011, 2, 895, []) (Node Leaf (1013,
     1013, 2, 917, []) Leaf)) (1016, 1016, 2, 1015, []) (Node (Node Leaf (1019, 1019, 2,
     1018, []) Leaf) (1072, 1103, 1, 1040, []) (Node Leaf (1104, 1119, 1, 1024, []) Leaf)))))
     (1121, 1153, 2, 1120, []) (Node (Node (Node (Node (Node (Node Leaf (1163, 1215, 2, 1162,
     []) Leaf) (1218, 1230, 2, 1217, []) Leaf) (1231, 1231, 2, 1216, []) (Node Leaf (1233,
     1327, 2, 1232, []) Leaf)) (1377, 1414, 1, 1329, []) (Node (Node (Node Leaf (1415, 1415,
     2, 1333, [1362]) Leaf) (4304, 4346, 1, 7312, []) Leaf) (4349, 4351, 1, 7357, []) (Node
     Leaf (5112, 5117, 1, 5104, []) Leaf))) (7296, 7296, 2, 1042, []) (Node (Node (Node (Node
     Leaf (7297, 7297, 2, 1044, []) Leaf) (7298, 7298, 2, 1054, []) Leaf) (7299, 7300, 1,
     1057, []) (Node Leaf (7301, 7301, 2, 1058, []) Leaf)) (7302, 7302, 2, 1066, []) (Node
     (Node Leaf (7303, 7303, 2, 1122, []) Leaf) (7304, 7304, 2, 42570, []) (Node Leaf (7545,
     7545, 2, 42877, []) Leaf)))) (7549, 7549, 2, 11363, []) (Node (Node (Node (Node (Node
     Leaf (7566, 7566, 2, 42950, []) Leaf) (7681, 7829, 2, 7680, []) Leaf) (7830, 7830, 2,
     72, [817]) (Node Leaf (7831, 7831, 2, 84, [776]) Leaf)) (7832, 7832, 2, 87, [778]) (Node
     (Node Leaf (7833, 7833, 2, 89, [778]) Leaf) (7834, 7834, 2, 65, [702]) (Node Leaf (7835,
     7835, 2, 7776, []) Leaf))) (7841, 7935, 2, 7840, []) (Node (Node (Node (Node Leaf (7936,
     7943, 1, 7944, []) Leaf) (7952, 7957, 1, 7960, []) Leaf) (7968, 7975, 1, 7976, []) (Node
     Leaf (7984, 7991, 1, 7992, []) Leaf)) (8000, 8005, 1, 8008, []) (Node (Node Leaf (8016,
     8016, 2, 933, [787]) Leaf) (8017, 8017, 2, 8025, []) (Node Leaf (8018, 8018, 2, 933,
     [787, 768]) Leaf))))))) (8019, 8019, 2, 8027, []) (Node (Node (Node (Node (Node (Node
     (Node (Node Leaf (8020, 8020, 2, 933, [787, 769]) Leaf) (8021, 8021, 2, 8029, []) Leaf)
     (8022, 8022, 2, 933, [787, 834]) (Node Leaf (8023, 8023, 2, 8031, []) Leaf)) (8032,
     8039, 1, 8040, []) (Node (Node (Node Leaf (8048, 8049, 1, 8122, []) Leaf) (8050, 8053,
     1, 8136, []) Leaf) (8054, 8055, 1, 8154, []) (Node Leaf (8056, 8057, 1, 8184, [])
     Leaf))) (8058, 8059, 1, 8170, []) (Node (Node (Node (Node Leaf (8060, 8061, 1, 8186, [])
     Leaf) (8064, 8064, 2, 7944, [921]) Leaf) (8065, 8065, 2, 7945, [921]) (Node Leaf (8066,
     8066, 2, 7946, [921]) Leaf)) (8067, 8067, 2, 7947, [921]) (Node (Node Leaf (8068, 8068,
     2, 7948, [921]) Leaf) (8069, 8069, 2, 7949, [921]) (Node Leaf (8070, 8070, 2, 7950,
     [921]) Leaf)))) (8071, 8071, 2, 7951, [921]) (Node (Node (Node (Node (Node Leaf (8072,
     8072, 2, 7944, [921]) Leaf) (8073, 8073, 2, 7945, [921]) Leaf) (8074, 8074, 2, 7946,
     [921]) (Node Leaf (8075, 8075, 2, 7947, [921]) Leaf)) (8076, 8076, 2, 7948, [921]) (Node
     (Node (Node Leaf (8077, 8077, 2, 7949, [921]) Leaf) (8078, 8078, 2, 7950, [921]) Leaf)
     (8079, 8079, 2, 7951, [921]) (Node Leaf (8080, 8080, 2, 7976, [921]) Leaf))) (8081,
     8081, 2, 7977, [921]) (Node (Node (Node (Node Leaf (8082, 8082, 2, 7978, [921]) Leaf)
     (8083, 8083, 2, 7979, [921]) Leaf) (8084, 8084, 2, 7980, [921]) (Node Leaf (8085, 8085,
     2, 7981, [921]) Leaf)) (8086, 8086, 2, 7982, [921]) (Node (Node Leaf (8087, 8087, 2,
     7983, [921]) Leaf) (8088, 8088, 2, 7976, [921]) (Node Leaf (8089, 8089, 2, 7977, [921])
     Leaf))))) (8090, 8090, 2, 7978, [921]) (Node (Node (Node (Node (Node (Node Leaf (8091,
     8091, 2, 7979, [921]) Leaf) (8092, 8092, 2, 7980, [921]) Leaf) (8093, 8093, 2, 7981,
     [921]) (Node Leaf (8094, 8094, 2, 7982, [921]) Leaf)) (8095, 8095, 2, 7983, [921]) (Node
     (Node (Node Leaf (8096, 8096, 2, 8040, [921]) Leaf) (8097, 8097, 2, 8041, [921]) Leaf)
     (8098, 8098, 2, 8042, [921]) (Node Leaf (8099, 8099, 2, 8043, [921]) Leaf))) (8100,
     8100, 2, 8044, [921]) (Node (Node (Node (Node Leaf (8101, 8101, 2, 8045, [921]) Leaf)
     (8102, 8102, 2, 8046, [921]) Leaf) (8103, 8103, 2, 8047, [921]) (Node Leaf (8104, 8104,
     2, 8040, [921]) Leaf)) (8105, 8105, 2, 8041, [921]) (Node (Node Leaf (8106, 8106, 2,
     8042, [921]) Leaf) (8107, 8107, 2, 8043, [921]) (Node Leaf (8108, 8108, 2, 8044, [921])
     Leaf)))) (8109, 8109, 2, 8045, [921]) (Node (Node (Node (Node (Node Leaf (8110, 8110, 2,
     8046, [921]) Leaf) (8111, 8111, 2, 8047, [921]) Leaf) (8112, 8113, 1, 8120, []) (Node
     Leaf (8114, 8114, 2, 8122, [921]) Leaf)) (8115, 8115, 2, 913, [921]) (Node (Node Leaf
     (8116, 8116, 2, 902, [921]) Leaf) (8118, 8118, 2, 913, [834]) (Node Leaf (8119, 8119, 2,
     913, [834, 921]) Leaf))) (8124, 8124, 2, 913, [921]) (Node (Node (Node (Node Leaf (8126,
     8126, 2, 921, []) Leaf) (8130, 8130, 2, 8138, [921]) Leaf) (8131, 8131, 2, 919, [921])
     (Node Leaf (8132, 8132, 2, 905, [921]) Leaf)) (8134, 8134, 2, 919, [834]) (Node (Node
     Leaf (8135, 8135, 2, 919, [834, 921]) Leaf) (8140, 8140, 2, 919, [921]) (Node Leaf
     (8144, 8145, 1, 8152, []) Leaf)))))) (8146, 8146, 2, 921, [776, 768]) (Node (Node (Node
     (Node (Node (Node (Node Leaf (8147, 8147, 2, 921, [776, 769]) Leaf) (8150, 8150, 2, 921,
     [834]) Leaf) (8151, 8151, 2, 921, [776, 834]) (Node Leaf (8160, 8161, 1, 8168, [])
     Leaf)) (8162, 8162, 2, 933, [776, 768]) (Node (Node (Node Leaf (8163, 8163, 2, 933,
     [776, 769]) Leaf) (8164, 8164, 2, 929, [787]) Leaf) (8165, 8165, 2, 8172, []) (Node Leaf
     (8166, 8166, 2, 933, [834]) Leaf))) (8167, 8167, 2, 933, [776, 834]) (Node (Node (Node
     (Node Leaf (8178, 8178, 2, 8186, [921]) Leaf) (8179, 8179, 2, 937, [921]) Leaf) (8180,
     8180, 2, 911, [921]) (Node Leaf (8182, 8182, 2, 937, [834]) Leaf)) (8183, 8183, 2, 937,
     [834, 921]) (Node (Node Leaf (8188, 8188, 2, 937, [921]) Leaf) (8526, 8526, 2, 8498, [])
     (Node Leaf (8560, 8575, 1, 8544, []) Leaf)))) (8580, 8580, 2, 8579, []) (Node (Node
     (Node (Node (Node Leaf (9424, 9449, 1, 9398, []) Leaf) (11312, 11359, 1, 11264, [])
     Leaf) (11361, 11361, 2, 11360, []) (Node Leaf (11365, 11365, 2, 570, []) Leaf)) (11366,
     11366, 2, 574, []) (Node (Node Leaf (11368, 11372, 2, 11367, []) Leaf) (11379, 11379, 2,
     11378, []) (Node Leaf (11382, 11382, 2, 11381, []) Leaf))) (11393, 11491, 2, 11392, [])
     (Node (Node (Node (Node Leaf (11500, 11502, 2, 11499, []) Leaf) (11507, 11507, 2, 11506,
     []) Leaf) (11520, 11557, 1, 4256, []) (Node Leaf (11559, 11559, 2, 4295, []) Leaf))
     (11565, 11565, 2, 4301, []) (Node (Node Leaf (42561, 42605, 2, 42560, []) Leaf) (42625,
     42651, 2, 42624, []) (Node Leaf (42787, 42799, 2, 42786, []) Leaf))))) (42803, 42863, 2,
     42802, []) (Node (Node (Node (Node (Node (Node Leaf (42874, 42876, 2, 42873, []) Leaf)
     (42879, 42887, 2, 42878, []) Leaf) (42892, 42892, 2, 42891, []) (Node Leaf (42897,
     42899, 2, 42896, []) Leaf)) (42900, 42900, 2, 42948, []) (Node (Node (Node Leaf (42903,
     42921, 2, 42902, []) Leaf) (42933, 42947, 2, 42932, []) Leaf) (42952, 42954, 2, 42951,
     []) (Node Leaf (42961, 42961, 2, 42960, []) Leaf))) (42967, 42969, 2, 42966, []) (Node
     (Node (Node (Node Leaf (42998, 42998, 2, 42997, []) Leaf) (43859, 43859, 2, 42931, [])
     Leaf) (43888, 43967, 1, 5024, []) (Node Leaf (64256, 64256, 2, 70, [70]) Leaf)) (64257,
     64257, 2, 70, [73]) (Node (Node Leaf (64258, 64258, 2, 70, [76]) Leaf) (64259, 64259, 2,
     70, [70, 73]) (Node Leaf (64260, 64260, 2, 70, [70, 76]) Leaf)))) (64261, 64261, 2, 83,
     [84]) (Node (Node (Node (Node (Node Leaf (64262, 64262, 2, 83, [84]) Leaf) (64275,
     64275, 2, 1348, [1350]) Leaf) (64276, 64276, 2, 1348, [1333]) (Node Leaf (64277, 64277,
     2, 1348, [1339]) Leaf)) (64278, 64278, 2, 1358, [1350]) (Node (Node Leaf (64279, 64279,
     2, 1348, [1341]) Leaf) (65345, 65370, 1, 65313, []) (Node Leaf (66600, 66639, 1, 66560,
     []) Leaf))) (66776, 66811, 1, 66736, []) (Node (Node (Node (Node Leaf (66967, 66977, 1,
     66928, []) Leaf) (66979, 66993, 1, 66940, []) Leaf) (66995, 67001, 1, 66956, []) (Node
     Leaf (67003, 67004, 1, 66964, []) Leaf)) (68800, 68850, 1, 68736, []) (Node (Node Leaf
     (71872, 71903, 1, 71840, []) Leaf) (93792, 93823, 1, 93760, []) (Node Leaf (125218,
     125251, 1, 125184, []) Leaf)))))))"

definition space_free :: "nat \<Rightarrow> nat \<Rightarrow> bool" where
  "space_free a b \<longleftrightarrow>
     (b < 9 \<or> 13 < a) \<and> (b < 28 \<or> 32 < a) \<and> (b < 133 \<or> 133 < a) \<and> (b < 160 \<or> 160 < a) \<and>
     (b < 5760 \<or> 5760 < a) \<and> (b < 8192 \<or> 8202 < a) \<and> (b < 8232 \<or> 8233 < a) \<and>
     (b < 8239 \<or> 8239 < a) \<and> (b < 8287 \<or> 8287 < a) \<and> (b < 12288 \<or> 12288 < a)"

fun chain :: "nat \<Rightarrow> case_rule list \<Rightarrow> bool" where
  "chain p [] = True"
| "chain p ((lo, hi, step, tlo, ms) # rs) = (p < lo \<and> lo \<le> hi \<and> 0 < step \<and> chain hi rs)"

fun clear_of :: "nat \<times> nat \<times> nat \<Rightarrow> case_rule \<Rightarrow> bool" where
  "clear_of (a, b, s) (lo, hi, step, tlo, ms) \<longleftrightarrow>
     b < lo \<or> hi < a \<or> (even s \<and> even step \<and> a mod 2 \<noteq> lo mod 2)"

fun tree_free :: "nat \<times> nat \<times> nat \<Rightarrow> case_tree \<Rightarrow> bool" where
  "tree_free p Leaf = True"
| "tree_free (a, b, s) (Node l (lo, hi, step, tlo, ms) t) =
     (if b < lo then tree_free (a, b, s) l
      else if hi < a then tree_free (a, b, s) t
      else clear_of (a, b, s) (lo, hi, step, tlo, ms) \<and>
           tree_free (a, b, s) l \<and> tree_free (a, b, s) t)"

fun range_ok :: "case_tree \<Rightarrow> nat \<times> nat \<times> nat \<Rightarrow> bool" where
  "range_ok tr (a, b, s) \<longleftrightarrow> (b < 97 \<or> 122 < a) \<and> space_free a b \<and> tree_free (a, b, s) tr"

fun rule_ok :: "case_tree \<Rightarrow> case_rule \<Rightarrow> bool" where
  "rule_ok tr (lo, hi, step, tlo, ms) \<longleftrightarrow>
     range_ok tr (tlo, tlo + (hi - lo), step) \<and> list_all (\<lambda>x. range_ok tr (x, x, 2)) ms"

definition table_ok :: "case_tree \<Rightarrow> bool" where
  "table_ok tr \<longleftrightarrow> chain 127 (inorder tr) \<and> list_all (rule_ok tr) (inorder tr)"

section \<open>Data frames\<close>

text \<open>
  A \<open>pandas.DataFrame\<close> as the program uses it: the column index (flat, or a
  \<open>MultiIndex\<close> whose entries are tuples, kept as the outer levels and the innermost
  level), the row labels, and the cells column by column, in the position of their label.
  Labels may repeat, as in a scraped table.
\<close>

datatype col_index = Index "pyval list" | MultiIndex "(pyval list \<times> pyval) list"

record dataframe =
  columns :: col_index
  index :: "int list"
  data :: "pyval list list"

text \<open>\<open>len(df)\<close> is the number of rows.\<close>

definition len :: "dataframe \<Rightarrow> nat" where
  "len df = length (index df)"

text \<open>
  The labels of a flat column index, in order. The program reads them only after it has
  flattened the header (lines 54-55); a \<open>MultiIndex\<close> has no flat labels here.
\<close>

fun flat_labels :: "col_index \<Rightarrow> pyval list" where
  "flat_labels (Index ls) = ls"
| "flat_labels (MultiIndex ts) = []"

definition labels :: "dataframe \<Rightarrow> pyval list" where
  "labels df = flat_labels (columns df)"

fun width :: "col_index \<Rightarrow> nat" where
  "width (Index ls) = length ls"
| "width (MultiIndex ts) = length ts"

text \<open>A well-formed frame is rectangular: one column of cells per label, one cell per row.\<close>

definition wf :: "dataframe \<Rightarrow> bool" where
  "wf df \<longleftrightarrow> length (data df) = width (columns df) \<and> list_all (\<lambda>d. length d = len df) (data df)"

text \<open>\<open>isinstance(df.columns, pd.MultiIndex)\<close> and \<open>df.columns.get_level_values(-1)\<close>.\<close>

fun is_MultiIndex :: "col_index \<Rightarrow> bool" where
  "is_MultiIndex (MultiIndex ts) = True"
| "is_MultiIndex (Index ls) = False"

fun get_level_values_last :: "col_index \<Rightarrow> col_index" where
  "get_level_values_last (MultiIndex ts) = Index (map snd ts)"
| "get_level_values_last (Index ls) = Index ls"

text \<open>\<open>df.columns = ls\<close>, on the frame as a value.\<close>

definition set_columns :: "pyval list \<Rightarrow> dataframe \<Rightarrow> dataframe" where
  "set_columns ls df = df\<lparr>columns := Index ls\<rparr>"

text \<open>Selection by a boolean mask: the entries whose mask bit is set.\<close>

fun select_mask :: "bool list \<Rightarrow> 'a list \<Rightarrow> 'a list" where
  "select_mask [] xs = []"
| "select_mask (b # bs) [] = []"
| "select_mask (b # bs) (x # xs) = (if b then x # select_mask bs xs else select_mask bs xs)"

text \<open>\<open>df.loc[:, mask]\<close>: the columns whose mask bit is set, rows untouched.\<close>

definition loc_cols :: "bool list \<Rightarrow> dataframe \<Rightarrow> dataframe" where
  "loc_cols m df =
     \<lparr>columns = Index (select_mask m (labels df)), index = index df,
      data = select_mask m (data df)\<rparr>"

text \<open>\<open>df[mask]\<close> with a boolean series: the rows whose mask bit is set, labels kept.\<close>

definition filter_rows :: "bool list \<Rightarrow> dataframe \<Rightarrow> dataframe" where
  "filter_rows m df =
     \<lparr>columns = columns df, index = select_mask m (index df),
      data = map (select_mask m) (data df)\<rparr>"

text \<open>\<open>df.iloc[0].tolist()\<close> (the caller has checked \<open>len(df) > 0\<close>).\<close>

definition iloc0 :: "dataframe \<Rightarrow> pyval list" where
  "iloc0 df = map hd (data df)"

text \<open>\<open>df.iloc[1:].reset_index(drop=True)\<close>: the first row goes, the rows are renumbered.\<close>

definition iloc_from1_reset :: "dataframe \<Rightarrow> dataframe" where
  "iloc_from1_reset df =
     \<lparr>columns = columns df, index = map int [0..<len df - 1], data = map tl (data df)\<rparr>"

text \<open>\<open>pd.Index(ls).duplicated(keep="first")\<close>: set where the label has occurred before.\<close>

fun duplicated_from :: "'a list \<Rightarrow> 'a list \<Rightarrow> bool list" where
  "duplicated_from seen [] = []"
| "duplicated_from seen (x # xs) = (x \<in> set seen) # duplicated_from (x # seen) xs"

definition duplicated :: "'a list \<Rightarrow> bool list" where
  "duplicated xs = duplicated_from [] xs"

text \<open>
  \<open>df[cs]\<close> with a list of labels: for each requested label, the columns that carry it.
  (A label the frame lacks is a \<open>KeyError\<close> in pandas; the program asks only for labels
  it has found in \<open>df.columns\<close>.)
\<close>

definition getitem_cols :: "pyval list \<Rightarrow> dataframe \<Rightarrow> dataframe" where
  "getitem_cols cs df =
     (let sel = concat (map (\<lambda>c. filter (\<lambda>(l, d). l = c) (zip (labels df) (data df))) cs)
      in \<lparr>columns = Index (map fst sel), index = index df, data = map snd sel\<rparr>)"

text \<open>\<open>df[c]\<close> with one label: the cells of the column that carries it.\<close>

definition getitem :: "pyval \<Rightarrow> dataframe \<Rightarrow> pyval list" where
  "getitem c df =
     (case filter (\<lambda>(l, d). l = c) (zip (labels df) (data df)) of
        [] \<Rightarrow> [] | (l, d) # _ \<Rightarrow> d)"

text \<open>\<open>df[c] = vs\<close> for a label the frame has: the cells of that column are replaced.\<close>

definition setitem :: "pyval \<Rightarrow> pyval list \<Rightarrow> dataframe \<Rightarrow> dataframe" where
  "setitem c vs df =
     df\<lparr>data := map (\<lambda>(l, d). if l = c then vs else d) (zip (labels df) (data df))\<rparr>"

text \<open>
  Series operations of lines 77-78. \<open>astype(str)\<close> applies \<open>str\<close> to every cell (NaN
  becomes the text \<open>nan\<close>); the \<open>.str\<close> methods are applied to cells that are text by then.
\<close>

definition astype_str :: "pyval list \<Rightarrow> pyval list" where
  "astype_str vs = map (\<lambda>v. PStr (py_str v)) vs"

definition str_strip :: "pyval list \<Rightarrow> pyval list" where
  "str_strip vs = map (\<lambda>v. PStr (py_strip (py_str v))) vs"

definition str_upper :: "pyval list \<Rightarrow> pyval list" where
  "str_upper vs = map (\<lambda>v. PStr (py_upper (py_str v))) vs"

definition str_startswith :: "pystr \<Rightarrow> pyval list \<Rightarrow> bool list" where
  "str_startswith p vs = map (\<lambda>v. startswith (py_str v) p) vs"

section \<open>The normaliser: \<open>clean_table_to_stock_schema\<close>\<close>

text \<open>Lines 54-55: a multi-level header is replaced by its innermost level.\<close>

definition flatten_header :: "dataframe \<Rightarrow> dataframe" where
  "flatten_header df =
     (if is_MultiIndex (columns df) then df\<lparr>columns := get_level_values_last (columns df)\<rparr>
      else df)"

text \<open>Lines 57 and 67: \<open>df.columns = [_norm(c) for c in df.columns]\<close>.\<close>

definition normalize_labels :: "dataframe \<Rightarrow> dataframe" where
  "normalize_labels df = set_columns (map (\<lambda>c. PStr (py_norm c)) (labels df)) df"

text \<open>Line 58: \<open>df.loc[:, ~pd.Index(df.columns).str.startswith("UNNAMED")]\<close>.\<close>

definition drop_unnamed :: "dataframe \<Rightarrow> dataframe" where
  "drop_unnamed df = loc_cols (map Not (str_startswith (ascii ''UNNAMED'') (labels df))) df"

text \<open>Lines 61-62: the normalised first row, and how many of its values are canonical.\<close>

definition row0 :: "dataframe \<Rightarrow> pystr list" where
  "row0 df = map py_norm (iloc0 df)"

definition hits :: "dataframe \<Rightarrow> nat" where
  "hits df = length (filter (\<lambda>v. v \<in> CANON_SET) (row0 df))"

text \<open>Lines 60-65: the first row becomes the header when at least 4 of its values are canonical.\<close>

definition promotes :: "dataframe \<Rightarrow> bool" where
  "promotes df \<longleftrightarrow> len df > 0 \<and> hits df \<ge> 4"

definition promote_header :: "dataframe \<Rightarrow> dataframe" where
  "promote_header df =
     (if promotes df then iloc_from1_reset (set_columns (map PStr (row0 df)) df) else df)"

text \<open>Line 68: \<open>df.loc[:, ~pd.Index(df.columns).duplicated(keep="first")]\<close>.\<close>

definition drop_duplicated :: "dataframe \<Rightarrow> dataframe" where
  "drop_duplicated df = loc_cols (map Not (duplicated (labels df))) df"

text \<open>Line 70: \<open>present = [c for c in CANON if c in df.columns]\<close>.\<close>

definition present :: "dataframe \<Rightarrow> pystr list" where
  "present df = filter (\<lambda>c. PStr c \<in> set (labels df)) CANON"

text \<open>Lines 76-78: the SCRIP column becomes trimmed text, and rows that repeat the header go.\<close>

definition scrip_cleanup :: "dataframe \<Rightarrow> dataframe" where
  "scrip_cleanup out =
     (if PStr (ascii ''SCRIP'') \<in> set (labels out) then
        let out1 = setitem (PStr (ascii ''SCRIP''))
                     (str_strip (astype_str (getitem (PStr (ascii ''SCRIP'')) out))) out
        in filter_rows
             (map (\<lambda>v. v \<noteq> PStr (ascii ''SCRIP''))
                (str_upper (getitem (PStr (ascii ''SCRIP'')) out1))) out1
      else out)"

text \<open>Lines 52-58: the working copy when the first row is looked at.\<close>

definition before_promotion :: "dataframe \<Rightarrow> dataframe" where
  "before_promotion df = drop_unnamed (normalize_labels (flatten_header df))"

text \<open>Lines 67-80: labels normalised again, duplicates dropped, the schema test, the projection.\<close>

definition schema_tail :: "dataframe \<Rightarrow> dataframe option" where
  "schema_tail df1 =
     (let df = drop_duplicated (normalize_labels df1) in
      if length (present df) < 6 then None
      else Some (scrip_cleanup (getitem_cols (map PStr (present df)) df)))"

text \<open>
  The function. \<open>df.copy()\<close> gives a frame with the same contents, so on values it is the
  identity; \<open>None\<close> is Python's \<open>None\<close> (the table is rejected).
\<close>

definition clean_table_to_stock_schema :: "dataframe \<Rightarrow> dataframe option" where
  "clean_table_to_stock_schema df0 = schema_tail (promote_header (before_promotion df0))"

text \<open>The frame \<open>df\<close> at line 70, and the frame \<open>out\<close> at line 74.\<close>

definition prepare :: "dataframe \<Rightarrow> dataframe" where
  "prepare df0 = drop_duplicated (normalize_labels (promote_header (before_promotion df0)))"

definition projected :: "dataframe \<Rightarrow> dataframe" where
  "projected df0 = getitem_cols (map PStr (present (prepare df0))) (prepare df0)"

text \<open>
  The column labels as the specification's steps 1-4 and 6 leave them (flattening, label
  normalisation, placeholder columns dropped, first-row promotion, duplicates dropped),
  without the second normalisation of step 5.
\<close>

definition candidate_labels :: "dataframe \<Rightarrow> pyval list" where
  "candidate_labels df =
     labels (drop_duplicated (promote_header (drop_unnamed (normalize_labels (flatten_header df)))))"

text \<open>The rows of a frame, each with its row label: the view the row-wise properties use.\<close>

fun rows_of :: "int list \<Rightarrow> pyval list list \<Rightarrow> (int \<times> pyval list) list" where
  "rows_of [] ds = []"
| "rows_of (i # is) ds = (i, map hd ds) # rows_of is (map tl ds)"

definition rows :: "dataframe \<Rightarrow> (int \<times> pyval list) list" where
  "rows df = rows_of (index df) (data df)"

section \<open>The normaliser on a store of objects\<close>

text \<open>
  Python passes the frame by reference, and \<open>df.columns = ...\<close> and \<open>out["SCRIP"] = ...\<close>
  change the object they are applied to. Here the objects live in a store, an address is
  a position in it, \<open>alloc\<close> is the creation of a new object (\<open>copy()\<close>, \<open>loc\<close>, \<open>iloc\<close>,
  \<open>reset_index\<close> and \<open>df[...]\<close> each return one) and \<open>mutate\<close> an assignment to an
  attribute or a column of an existing one. The local names \<open>df\<close> and \<open>out\<close> are
  addresses, rebound as the source rebinds them.
\<close>

type_synonym store = "dataframe list"

definition alloc :: "dataframe \<Rightarrow> store \<Rightarrow> nat \<times> store" where
  "alloc obj h = (length h, h @ [obj])"

definition mutate :: "nat \<Rightarrow> (dataframe \<Rightarrow> dataframe) \<Rightarrow> store \<Rightarrow> store" where
  "mutate a f h = h[a := f (h ! a)]"

definition clean_table_to_stock_schema_st :: "nat \<Rightarrow> store \<Rightarrow> nat option \<times> store" where
  "clean_table_to_stock_schema_st a h0 =
     (let (df, h) = alloc (h0 ! a) h0;
          h = (if is_MultiIndex (columns (h ! df))
               then mutate df (\<lambda>obj. obj\<lparr>columns := get_level_values_last (columns obj)\<rparr>) h
               else h);
          h = mutate df normalize_labels h;
          (df, h) = alloc (drop_unnamed (h ! df)) h;
          (df, h) = (if promotes (h ! df) then
                       let h = mutate df (set_columns (map PStr (row0 (h ! df)))) h
                       in alloc (iloc_from1_reset (h ! df)) h
                     else (df, h));
          h = mutate df normalize_labels h;
          (df, h) = alloc (drop_duplicated (h ! df)) h;
          pres = present (h ! df)
      in if length pres < 6 then (None, h)
         else
           let (sel, h) = alloc (getitem_cols (map PStr pres) (h ! df)) h;
               (out, h) = alloc (h ! sel) h
           in if PStr (ascii ''SCRIP'') \<in> set (labels (h ! out)) then
                let h = mutate out (\<lambda>obj. setitem (PStr (ascii ''SCRIP''))
                          (str_strip (astype_str (getitem (PStr (ascii ''SCRIP'')) obj))) obj) h;
                    (out, h) = alloc (filter_rows
                          (map (\<lambda>v. v \<noteq> PStr (ascii ''SCRIP''))
                             (str_upper (getitem (PStr (ascii ''SCRIP'')) (h ! out)))) (h ! out)) h
                in (Some out, h)
              else (Some out, h))"

section \<open>The aggregator: \<open>save_all_tables_single_sheet\<close>\<close>

text \<open>
  \<open>pd.concat(frames, ignore_index=True)\<close> for frames without repeated labels: the columns
  are the union of the frames' columns in order of first appearance, a frame that lacks
  a column contributes NaN for each of its rows, and the rows are renumbered from 0.
  Cells are carried over as they are (pandas may store an integer column as floats once
  it holds NaN). The list is not empty where the program calls it.
\<close>

definition union_labels :: "dataframe list \<Rightarrow> pyval list" where
  "union_labels dfs =
     fold (\<lambda>c acc. if c \<in> set acc then acc else acc @ [c]) (concat (map labels dfs)) []"

definition reindex_column :: "pyval \<Rightarrow> dataframe \<Rightarrow> pyval list" where
  "reindex_column c df = (if c \<in> set (labels df) then getitem c df else replicate (len df) NaN)"

definition pd_concat :: "dataframe list \<Rightarrow> dataframe" where
  "pd_concat dfs =
     (let cs = union_labels dfs in
      \<lparr>columns = Index cs, index = map int [0..<sum_list (map len dfs)],
       data = map (\<lambda>c. concat (map (reindex_column c) dfs)) cs\<rparr>)"

text \<open>
  What the function asks of the file system, in order: \<open>Mkdir d\<close> is
  \<open>Path(d).mkdir(parents=True, exist_ok=True)\<close>, and \<open>ToExcel d f sheet df\<close> writes \<open>df\<close>
  with its header and without its row labels as the one sheet \<open>sheet\<close> of the workbook
  \<open>Path(d) / f\<close>. Faults of the file system itself are outside the model.
\<close>

datatype fs_op = Mkdir pystr | ToExcel pystr pystr pystr dataframe

text \<open>The loop of lines 94-99, on the pair (\<open>cleaned\<close>, \<open>skipped\<close>).\<close>

fun clean_loop :: "dataframe list \<Rightarrow> dataframe list \<times> nat \<Rightarrow> dataframe list \<times> nat" where
  "clean_loop [] acc = acc"
| "clean_loop (t # ts) (cleaned, skipped) =
     (case clean_table_to_stock_schema t of
        None \<Rightarrow> clean_loop ts (cleaned, skipped + 1)
      | Some fixed \<Rightarrow> clean_loop ts (cleaned @ [fixed], skipped))"

definition save_all_tables_single_sheet ::
    "dataframe list \<Rightarrow> pystr \<Rightarrow> pystr \<Rightarrow> dataframe option \<times> fs_op list" where
  "save_all_tables_single_sheet tables out_dir excel_name =
     (if tables = [] then (None, [])
      else
        let (cleaned, skipped) = clean_loop tables ([], 0) in
        if cleaned = [] then (None, [])
        else
          let combined_df = pd_concat cleaned in
          (Some combined_df,
           [Mkdir out_dir, ToExcel out_dir excel_name (ascii ''AllData'') combined_df]))"

text \<open>The tables the normaliser accepts, as it returns them, in the order supplied.\<close>

definition accepted :: "dataframe list \<Rightarrow> dataframe list" where
  "accepted tables = List.map_filter clean_table_to_stock_schema tables"

section \<open>Example tables\<close>

text \<open>A text cell or label, written as a literal.\<close>

definition text_cell :: "string \<Rightarrow> pyval" where
  "text_cell s = PStr (ascii s)"

text \<open>The stock table of the specification's end-to-end scenario: all 8 fields, one row.\<close>

definition ex_full :: dataframe where
  "ex_full =
     \<lparr>columns = Index (map text_cell
        [''SCRIP'', ''LDCP'', ''OPEN'', ''HIGH'', ''LOW'', ''CURRENT'', ''CHANGE'', ''VOLUME'']),
      index = [0],
      data = map (\<lambda>s. [text_cell s])
        [''AAA'', ''10'', ''10'', ''11'', ''9'', ''10.5'', ''+0.5'', ''1000'']\<rparr>"

text \<open>The noise table of the same scenario: no canonical field.\<close>

definition ex_noise :: dataframe where
  "ex_noise =
     \<lparr>columns = Index (map text_cell [''Unnamed: 0'', ''Sector'', ''Count'']),
      index = [0],
      data = map (\<lambda>s. [text_cell s]) ['''', ''Banks'', ''5'']\<rparr>"

text \<open>A table with 6 of the fields in mixed case, and a float cell.\<close>

definition ex_six :: dataframe where
  "ex_six =
     \<lparr>columns = Index (map text_cell
        [''Volume'', ''scrip'', '' ldcp'', ''Open'', ''HIGH'', ''Low'', ''Sector'']),
      index = [0, 1],
      data = [[PInt 500, PInt 70], [text_cell ''BBB'', text_cell ''CCC''],
              [PFloat (ascii ''1.5''), NaN], [text_cell ''1'', text_cell ''2''],
              [text_cell ''3'', text_cell ''4''], [text_cell ''5'', text_cell ''6''],
              [text_cell ''Banks'', text_cell ''Oil'']]\<rparr>"

text \<open>A two-level header over 6 fields.\<close>

definition ex_multi_header :: "(pyval list \<times> pyval) list" where
  "ex_multi_header =
     map (\<lambda>s. ([text_cell ''Market''], text_cell s))
       [''SCRIP'', ''LDCP'', ''OPEN'', ''HIGH'', ''LOW'', ''CURRENT'']"

definition ex_multi :: dataframe where
  "ex_multi =
     \<lparr>columns = MultiIndex ex_multi_header, index = [0],
      data = map (\<lambda>s. [text_cell s]) [''AAA'', ''1'', ''2'', ''3'', ''4'', ''5'']\<rparr>"



text \<open>A table whose SCRIP column repeats the header in its second row.\<close>

definition ex_repeat :: dataframe where
  "ex_repeat =
     \<lparr>columns = Index (map text_cell [''SCRIP'', ''LDCP'', ''OPEN'', ''HIGH'', ''LOW'', ''CURRENT'']),
      index = [0, 1, 2],
      data = [[text_cell '' AAA'', text_cell '' scrip '', PInt 7],
              [text_cell ''1'', text_cell ''LDCP'', text_cell ''2''],
              [text_cell ''1'', text_cell ''OPEN'', text_cell ''2''],
              [text_cell ''1'', text_cell ''HIGH'', text_cell ''2''],
              [text_cell ''1'', text_cell ''x'', text_cell ''2''],
              [text_cell ''1'', text_cell ''y'', text_cell ''2'']]\<rparr>"


text \<open>What the normaliser returns for \<open>ex_six\<close>: the 6 fields in canonical order.\<close>

definition ex_six_out :: dataframe where
  "ex_six_out =
     \<lparr>columns = Index (map text_cell
        [''SCRIP'', ''LDCP'', ''OPEN'', ''HIGH'', ''LOW'', ''VOLUME'']),
      index = [0, 1],
      data = [[text_cell ''BBB'', text_cell ''CCC''], [PFloat (ascii ''1.5''), NaN],
              [text_cell ''1'', text_cell ''2''], [text_cell ''3'', text_cell ''4''],
              [text_cell ''5'', text_cell ''6''], [PInt 500, PInt 70]]\<rparr>"

text \<open>What the normaliser returns for \<open>ex_repeat\<close>: the second row is gone.\<close>

definition ex_repeat_out :: dataframe where
  "ex_repeat_out =
     \<lparr>columns = Index (map text_cell [''SCRIP'', ''LDCP'', ''OPEN'', ''HIGH'', ''LOW'', ''CURRENT'']),
      index = [0, 2],
      data = [[text_cell ''AAA'', text_cell ''7''], [text_cell ''1'', text_cell ''2''],
              [text_cell ''1'', text_cell ''2''], [text_cell ''1'', text_cell ''2''],
              [text_cell ''1'', text_cell ''2''], [text_cell ''1'', text_cell ''2'']]\<rparr>"

section \<open>Theorems\<close>

subsection \<open>The upper-case table: targets are never sources\<close>

lemma space_free_sound:
  assumes "space_free a b" and "a \<le> x" and "x \<le> b"
  shows "\<not> isspace x"
proof -
  from assms(1) have c: "b < 9 \<or> 13 < a" "b < 28 \<or> 32 < a" "b < 133 \<or> 133 < a"
    "b < 160 \<or> 160 < a" "b < 5760 \<or> 5760 < a" "b < 8192 \<or> 8202 < a" "b < 8232 \<or> 8233 < a"
    "b < 8239 \<or> 8239 < a" "b < 8287 \<or> 8287 < a" "b < 12288 \<or> 12288 < a"
    by (simp_all add: space_free_def)
  have "\<not> (9 \<le> x \<and> x \<le> 13)" using c(1) assms(2,3) by arith
  moreover have "\<not> (28 \<le> x \<and> x \<le> 32)" using c(2) assms(2,3) by arith
  moreover have "x \<noteq> 133" using c(3) assms(2,3) by arith
  moreover have "x \<noteq> 160" using c(4) assms(2,3) by arith
  moreover have "x \<noteq> 5760" using c(5) assms(2,3) by arith
  moreover have "\<not> (8192 \<le> x \<and> x \<le> 8202)" using c(6) assms(2,3) by arith
  moreover have "x \<noteq> 8232 \<and> x \<noteq> 8233" using c(7) assms(2,3) by arith
  moreover have "x \<noteq> 8239" using c(8) assms(2,3) by arith
  moreover have "x \<noteq> 8287" using c(9) assms(2,3) by arith
  moreover have "x \<noteq> 12288" using c(10) assms(2,3) by arith
  ultimately show ?thesis unfolding isspace_def by blast
qed

lemma chain_lower: "chain p rs \<Longrightarrow> q \<in> set rs \<Longrightarrow> applies q x \<Longrightarrow> p < x"
proof (induction rs arbitrary: p)
  case Nil
  then show ?case by simp
next
  case (Cons r rs)
  obtain lo hi step tlo ms where r: "r = (lo, hi, step, tlo, ms)"
    by (cases r) auto
  from Cons.prems(1) have c: "p < lo" "lo \<le> hi" "chain hi rs" by (simp_all add: r)
  show ?case
  proof (cases "q = r")
    case True
    then show ?thesis using Cons.prems(3) c by (simp add: r)
  next
    case False
    then have "q \<in> set rs" using Cons.prems(2) by simp
    then have "hi < x" using Cons.IH [OF c(3)] Cons.prems(3) by blast
    then show ?thesis using c by simp
  qed
qed

lemma chain_append:
  "chain p (xs @ (lo, hi, step, tlo, ms) # ys) \<Longrightarrow>
   chain p xs \<and> chain hi ys \<and> lo \<le> hi \<and> (\<forall>q \<in> set xs. \<forall>x. applies q x \<longrightarrow> x < lo)"
proof (induction xs arbitrary: p)
  case Nil
  then show ?case by simp
next
  case (Cons r xs)
  obtain lo' hi' step' tlo' ms' where r: "r = (lo', hi', step', tlo', ms')"
    by (cases r) auto
  from Cons.prems have c: "p < lo'" "lo' \<le> hi'" "0 < step'"
    and c4: "chain hi' (xs @ (lo, hi, step, tlo, ms) # ys)"
    by (simp_all add: r)
  note ih = Cons.IH [OF c4]
  have "applies (lo, hi, step, tlo, ms) lo" using ih by simp
  then have "hi' < lo" using chain_lower [OF c4, of "(lo, hi, step, tlo, ms)" lo] by simp
  then have h: "\<forall>x. applies r x \<longrightarrow> x < lo" by (auto simp add: r)
  have "chain p (r # xs)" using c ih by (simp add: r)
  then show ?case using ih h by simp
qed

lemma clear_of_sound:
  assumes "clear_of (a, b, s) q" and "a \<le> x" and "x \<le> b" and "s dvd (x - a)"
  shows "\<not> applies q x"
proof
  assume ap: "applies q x"
  obtain lo hi step tlo ms where q: "q = (lo, hi, step, tlo, ms)"
    by (cases q) auto
  from ap have s: "lo \<le> x" "x \<le> hi" "step dvd (x - lo)" by (auto simp add: q)
  from assms(1) consider "b < lo" | "hi < a" | "even s" "even step" "a mod 2 \<noteq> lo mod 2"
    by (auto simp add: q)
  then show False
  proof cases
    case 1
    then show ?thesis using assms(3) s(1) by simp
  next
    case 2
    then show ?thesis using assms(2) s(2) by simp
  next
    case 3
    have "even (x - a)" using 3(1) assms(4) by (rule dvd_trans)
    moreover have "even (x - lo)" using 3(2) s(3) by (rule dvd_trans)
    ultimately show ?thesis using 3(3) assms(2) s(1) by presburger
  qed
qed

lemma tree_free_sound:
  "chain p (inorder tr) \<Longrightarrow> tree_free (a, b, s) tr \<Longrightarrow> a \<le> x \<Longrightarrow> x \<le> b \<Longrightarrow>
   s dvd (x - a) \<Longrightarrow> q \<in> set (inorder tr) \<Longrightarrow> \<not> applies q x"
proof (induction tr arbitrary: p)
  case Leaf
  then show ?case by simp
next
  case (Node l r t)
  obtain lo hi step tlo ms where r: "r = (lo, hi, step, tlo, ms)"
    by (cases r) auto
  have ch: "chain p (inorder l @ (lo, hi, step, tlo, ms) # inorder t)"
    using Node.prems(1) by (simp add: r)
  note ca = chain_append [OF ch]
  have cl: "chain p (inorder l)" and ct: "chain hi (inorder t)" and le: "lo \<le> hi"
    using ca by simp_all
  have below: "y < lo" if "q' \<in> set (inorder l)" "applies q' y" for q' y
    using ca that by blast
  have above: "hi < y" if "q' \<in> set (inorder t)" "applies q' y" for q' y
    using chain_lower [OF ct that] .
  from Node.prems(6) consider "q \<in> set (inorder l)" | "q = r" | "q \<in> set (inorder t)"
    by auto
  then show ?case
  proof cases
    case 1
    show ?thesis
    proof (cases "b < lo")
      case True
      then have "tree_free (a, b, s) l" using Node.prems(2) by (simp add: r)
      then show ?thesis using Node.IH(1) [OF cl _ Node.prems(3,4,5) 1] by blast
    next
      case False
      show ?thesis
      proof (cases "hi < a")
        case True
        then have "lo \<le> x" using le Node.prems(3) by simp
        then show ?thesis using below [OF 1] by force
      next
        case h: False
        then have "tree_free (a, b, s) l" using False Node.prems(2) by (simp add: r)
        then show ?thesis using Node.IH(1) [OF cl _ Node.prems(3,4,5) 1] by blast
      qed
    qed
  next
    case 2
    show ?thesis
    proof (cases "b < lo")
      case True
      then show ?thesis using Node.prems(4) by (simp add: 2 r)
    next
      case False
      show ?thesis
      proof (cases "hi < a")
        case True
        then show ?thesis using Node.prems(3) by (simp add: 2 r)
      next
        case h: False
        then have "clear_of (a, b, s) r" using False Node.prems(2) by (simp add: r)
        then show ?thesis using clear_of_sound Node.prems(3,4,5) 2 by blast
      qed
    qed
  next
    case 3
    show ?thesis
    proof (cases "b < lo")
      case True
      then have "x \<le> hi" using le Node.prems(4) by simp
      then show ?thesis using above [OF 3] by force
    next
      case False
      show ?thesis
      proof (cases "hi < a")
        case True
        then have "tree_free (a, b, s) t" using False Node.prems(2) by (simp add: r)
        then show ?thesis using Node.IH(2) [OF ct _ Node.prems(3,4,5) 3] by blast
      next
        case h: False
        then have "tree_free (a, b, s) t" using False Node.prems(2) by (simp add: r)
        then show ?thesis using Node.IH(2) [OF ct _ Node.prems(3,4,5) 3] by blast
      qed
    qed
  qed
qed

lemma range_ok_unchanged:
  assumes "chain 127 (inorder tr)" and "range_ok tr (a, b, s)"
    and "a \<le> x" and "x \<le> b" and "s dvd (x - a)"
  shows "upper_with (inorder tr) x = [x]" and "\<not> isspace x"
proof -
  from assms(2) have r: "b < 97 \<or> 122 < a" "space_free a b" "tree_free (a, b, s) tr"
    by simp_all
  show "\<not> isspace x" using r(2) assms(3,4) by (rule space_free_sound)
  have "\<forall>q \<in> set (inorder tr). \<not> applies q x"
    using tree_free_sound [OF assms(1) r(3) assms(3,4,5)] by blast
  then have "find (\<lambda>q. applies q x) (inorder tr) = None"
    unfolding find_None_iff by blast
  moreover have "\<not> (97 \<le> x \<and> x \<le> 122)" using r(1) assms(3,4) by auto
  ultimately show "upper_with (inorder tr) x = [x]" by (auto simp add: upper_with_def)
qed

lemma not_isspace_upper_ascii: "65 \<le> x \<Longrightarrow> x \<le> 90 \<Longrightarrow> \<not> isspace x"
  unfolding isspace_def by arith

lemma upper_with_targets:
  assumes "table_ok tr"
  shows "upper_with (inorder tr) c = [c] \<or>
         (\<forall>x \<in> set (upper_with (inorder tr) c). upper_with (inorder tr) x = [x] \<and> \<not> isspace x)"
proof (cases "c < 128")
  case True
  show ?thesis
  proof (cases "97 \<le> c \<and> c \<le> 122")
    case lower: True
    then have "upper_with (inorder tr) c = [c - 32]" using True by (simp add: upper_with_def)
    moreover have "c - 32 < 97" using lower by arith
    then have "upper_with (inorder tr) (c - 32) = [c - 32]"
      by (simp add: upper_with_def)
    moreover have "\<not> isspace (c - 32)"
      using lower by (intro not_isspace_upper_ascii) arith+
    ultimately show ?thesis by simp
  next
    case False
    then have "upper_with (inorder tr) c = [c]" using True by (auto simp add: upper_with_def)
    then show ?thesis by simp
  qed
next
  case False
  from assms have ch: "chain 127 (inorder tr)" and ok: "list_all (rule_ok tr) (inorder tr)"
    by (simp_all add: table_ok_def)
  show ?thesis
  proof (cases "find (\<lambda>q. applies q c) (inorder tr)")
    case None
    then show ?thesis using False by (simp add: upper_with_def)
  next
    case (Some q)
    then have mem: "q \<in> set (inorder tr)" and ap: "applies q c"
      by (auto simp add: find_Some_iff)
    obtain lo hi step tlo ms where q: "q = (lo, hi, step, tlo, ms)"
      by (cases q) auto
    from ok mem have "rule_ok tr q" by (simp add: list_all_iff)
    then have r1: "range_ok tr (tlo, tlo + (hi - lo), step)"
      and r2: "\<forall>x \<in> set ms. range_ok tr (x, x, 2)"
      by (simp_all add: q list_all_iff)
    from ap have s: "lo \<le> c" "c \<le> hi" "step dvd (c - lo)" by (auto simp add: q)
    have u: "upper_with (inorder tr) c = (tlo + (c - lo)) # ms"
      using False Some by (simp add: upper_with_def q)
    have first: "upper_with (inorder tr) (tlo + (c - lo)) = [tlo + (c - lo)] \<and>
        \<not> isspace (tlo + (c - lo))"
      using range_ok_unchanged [OF ch r1, of "tlo + (c - lo)"] s by simp
    have rest: "upper_with (inorder tr) x = [x] \<and> \<not> isspace x" if "x \<in> set ms" for x
      using range_ok_unchanged [OF ch r2 [rule_format, OF that], of x] by simp
    show ?thesis using u first rest by auto
  qed
qed

lemma upper_with_nonempty: "upper_with table c \<noteq> []"
proof -
  have "result q c \<noteq> []" for q by (cases q) auto
  then show ?thesis by (auto simp add: upper_with_def split: option.splits)
qed

subsection \<open>The table of Unicode 14.0.0\<close>

lemma tree_free_cong: "p = p' \<Longrightarrow> tree_free p tr = tree_free p' tr"
  by simp

lemma chain_cong: "p = p' \<Longrightarrow> chain p rs = chain p' rs"
  by simp

lemma range_ok_cong: "p = p' \<Longrightarrow> range_ok tr p = range_ok tr p'"
  by simp

lemma rule_ok_cong: "r = r' \<Longrightarrow> rule_ok tr r = rule_ok tr r'"
  by simp

lemmas table_congs = tree_free_cong chain_cong range_ok_cong rule_ok_cong

lemma inorder_upper_tree: "inorder upper_tree = upper_table"
  unfolding upper_tree_def upper_table_def by simp

lemma chain_upper_table: "chain 127 upper_table"
  unfolding upper_table_def by (simp cong: table_congs)

lemma rules_upper_table: "list_all (rule_ok upper_tree) upper_table"
  unfolding upper_table_def upper_tree_def
  by (simp add: space_free_def cong: table_congs)

lemma upper_table_ok: "table_ok upper_tree"
  by (simp add: table_ok_def inorder_upper_tree chain_upper_table rules_upper_table)

lemma upper_cp_targets:
  "upper_cp c = [c] \<or> (\<forall>x \<in> set (upper_cp c). upper_cp x = [x] \<and> \<not> isspace x)"
  using upper_with_targets [OF upper_table_ok, of c]
  by (simp add: upper_cp_def inorder_upper_tree)

lemma upper_cp_ascii:
  "c < 128 \<Longrightarrow> upper_cp c = (if 97 \<le> c \<and> c \<le> 122 then [c - 32] else [c])"
  by (simp add: upper_cp_def upper_with_def)

lemma concat_map_fixed: "\<forall>x \<in> set u. f x = [x] \<Longrightarrow> concat (map f u) = u"
  by (induction u) auto

lemma upper_cp_idem: "concat (map upper_cp (upper_cp c)) = upper_cp c"
proof -
  from upper_cp_targets [of c] consider "upper_cp c = [c]"
    | "\<forall>x \<in> set (upper_cp c). upper_cp x = [x]"
    by blast
  then show ?thesis
  proof cases
    case 1
    then show ?thesis by simp
  next
    case 2
    then show ?thesis by (rule concat_map_fixed)
  qed
qed

lemma py_upper_append: "py_upper (xs @ ys) = py_upper xs @ py_upper ys"
  by (simp add: py_upper_def)

lemma py_upper_idem: "py_upper (py_upper s) = py_upper s"
proof (induction s)
  case Nil
  show ?case by (simp add: py_upper_def)
next
  case (Cons c s)
  have "py_upper (py_upper (c # s)) = py_upper (upper_cp c) @ py_upper (py_upper s)"
    by (simp add: py_upper_def)
  also have "py_upper (upper_cp c) = upper_cp c"
    using upper_cp_idem [of c] by (simp add: py_upper_def)
  finally show ?case using Cons.IH by (simp add: py_upper_def)
qed

lemma upper_cp_nonempty: "upper_cp c \<noteq> []"
  by (simp add: upper_cp_def upper_with_nonempty)

lemma upper_cp_ends_space:
  assumes "\<not> isspace c"
  shows "\<not> isspace (hd (upper_cp c)) \<and> \<not> isspace (last (upper_cp c))"
proof -
  from upper_cp_targets [of c] consider "upper_cp c = [c]"
    | "\<forall>x \<in> set (upper_cp c). \<not> isspace x"
    by blast
  then show ?thesis
  proof cases
    case 1
    then show ?thesis using assms by simp
  next
    case 2
    then show ?thesis using upper_cp_nonempty [of c] by simp
  qed
qed

lemma upper_cp_no_nbsp: "c \<noteq> 160 \<Longrightarrow> 160 \<notin> set (upper_cp c)"
proof -
  assume c: "c \<noteq> 160"
  have s: "isspace 160" by (simp add: isspace_def)
  from upper_cp_targets [of c] consider "upper_cp c = [c]"
    | "\<forall>x \<in> set (upper_cp c). \<not> isspace x"
    by blast
  then show ?thesis
  proof cases
    case 1
    then show ?thesis using c by simp
  next
    case 2
    then show ?thesis using s by blast
  qed
qed

lemma py_strip_fix: "stripped s \<Longrightarrow> py_strip s = s"
proof (cases "s = []")
  case True
  then show ?thesis by (simp add: py_strip_def)
next
  case False
  assume "stripped s"
  with False have h: "\<not> isspace (hd s)" and l: "\<not> isspace (last s)"
    by (simp_all add: stripped_def)
  have a: "dropWhile isspace s = s" using h by (simp add: dropWhile_eq_self_iff)
  have b: "dropWhile isspace (rev s) = rev s" using l by (simp add: dropWhile_eq_self_iff hd_rev)
  show ?thesis by (simp add: py_strip_def a b)
qed

lemma last_dropWhile: "dropWhile P xs \<noteq> [] \<Longrightarrow> last (dropWhile P xs) = last xs"
  by (metis last_appendR takeWhile_dropWhile_id)

lemma stripped_py_strip: "stripped (py_strip s)"
proof (cases "py_strip s = []")
  case True
  then show ?thesis by (simp add: stripped_def)
next
  case False
  define t where "t = dropWhile isspace s"
  define u where "u = dropWhile isspace (rev t)"
  have ps: "py_strip s = rev u" by (simp add: py_strip_def t_def u_def)
  with False have u: "u \<noteq> []" by simp
  then have t: "t \<noteq> []" by (auto simp add: u_def)
  have "\<not> isspace (hd u)" using u unfolding u_def by (rule hd_dropWhile)
  moreover have "last u = last (rev t)" using u unfolding u_def by (rule last_dropWhile)
  moreover have "\<not> isspace (hd t)" using t unfolding t_def by (rule hd_dropWhile)
  ultimately show ?thesis using u t by (simp add: stripped_def ps hd_rev last_rev)
qed

lemma py_upper_Nil_iff: "py_upper s = [] \<longleftrightarrow> s = []"
  by (cases s) (simp_all add: py_upper_def upper_cp_nonempty)

lemma hd_py_upper: "s \<noteq> [] \<Longrightarrow> hd (py_upper s) = hd (upper_cp (hd s))"
  by (cases s) (simp_all add: py_upper_def upper_cp_nonempty)

lemma last_py_upper: "s \<noteq> [] \<Longrightarrow> last (py_upper s) = last (upper_cp (last s))"
proof (induction s rule: rev_induct)
  case Nil
  then show ?case by simp
next
  case (snoc c s)
  show ?case by (simp add: py_upper_def upper_cp_nonempty)
qed

lemma stripped_py_upper: "stripped s \<Longrightarrow> stripped (py_upper s)"
  by (auto simp add: stripped_def py_upper_Nil_iff hd_py_upper last_py_upper
      upper_cp_ends_space)

lemma py_replace_fix: "old \<notin> set s \<Longrightarrow> py_replace old new s = s"
  by (induction s) (auto simp add: py_replace_def)

lemma nbsp_py_replace: "160 \<notin> set (py_replace 160 32 s)"
  by (auto simp add: py_replace_def)

lemma set_py_strip: "set (py_strip s) \<subseteq> set s"
proof -
  have "set (py_strip s) \<subseteq> set (dropWhile isspace s)"
    unfolding py_strip_def using set_dropWhileD by fastforce
  also have "\<dots> \<subseteq> set s" using set_dropWhileD by fastforce
  finally show ?thesis .
qed

lemma nbsp_py_upper: "160 \<notin> set s \<Longrightarrow> 160 \<notin> set (py_upper s)"
  by (induction s) (auto simp add: py_upper_def dest: upper_cp_no_nbsp)

lemma py_norm_idem: "py_norm (PStr (py_norm x)) = py_norm x"
proof -
  define t where "t = py_strip (py_replace 160 32 (py_str x))"
  have n: "py_norm x = py_upper t" by (simp add: py_norm_def t_def)
  have "160 \<notin> set t" using set_py_strip nbsp_py_replace unfolding t_def by blast
  then have r: "py_replace 160 32 (py_upper t) = py_upper t"
    by (intro py_replace_fix nbsp_py_upper)
  have "stripped t" unfolding t_def by (rule stripped_py_strip)
  then have s: "py_strip (py_upper t) = py_upper t"
    by (intro py_strip_fix stripped_py_upper)
  have "py_norm (PStr (py_upper t)) = py_upper (py_strip (py_replace 160 32 (py_upper t)))"
    by (simp add: py_norm_def)
  then show ?thesis by (simp add: n r s py_upper_idem)
qed

lemma labels_set_columns: "labels (set_columns ls df) = ls"
  by (simp add: labels_def set_columns_def)

lemma set_columns_twice: "set_columns ls (set_columns ks df) = set_columns ls df"
  by (simp add: set_columns_def)

lemma normalize_labels_idem: "normalize_labels (normalize_labels df) = normalize_labels df"
  by (simp add: normalize_labels_def labels_set_columns set_columns_twice py_norm_idem comp_def)

text \<open>
  C8. The label normaliser \<open>_norm\<close> is idempotent: normalising a value that is already
  the result of \<open>_norm\<close> gives it back, for every input; so normalising the labels of a
  frame a second time changes nothing.
\<close>

theorem C8_norm_idempotent:
  "py_norm (PStr (py_norm x)) = py_norm x \<and>
   normalize_labels (normalize_labels df) = normalize_labels df"
  using py_norm_idem [of x] normalize_labels_idem [of df] by simp


subsection \<open>Masks\<close>


lemma select_mask_map: "select_mask m (map f xs) = map f (select_mask m xs)"
  by (induction m xs rule: select_mask.induct) auto

lemma set_select_mask: "set (select_mask m xs) \<subseteq> set xs"
  by (induction m xs rule: select_mask.induct) auto

lemma select_mask_filter: "select_mask (map P xs) xs = filter P xs"
  by (induction xs) auto

lemma select_mask_map_filter: "select_mask (map P xs) (map f xs) = map f (filter P xs)"
  by (induction xs) auto

lemma select_mask_Nil2: "select_mask m [] = []"
  by (cases m) auto

lemma length_select_mask_cong:
  "length xs = length ys \<Longrightarrow> length (select_mask m xs) = length (select_mask m ys)"
proof (induction m xs arbitrary: ys rule: select_mask.induct)
  case (1 xs)
  then show ?case by simp
next
  case (2 b bs)
  then show ?case by simp
next
  case (3 b bs x xs)
  then show ?case by (cases ys) auto
qed

lemma select_mask_zip:
  "select_mask m (zip xs ys) = zip (select_mask m xs) (select_mask m ys)"
proof (induction m xs arbitrary: ys rule: select_mask.induct)
  case (1 xs)
  then show ?case by simp
next
  case (2 b bs)
  then show ?case by simp
next
  case (3 b bs x xs)
  then show ?case by (cases ys) auto
qed

subsection \<open>Labels through the steps\<close>

lemma labels_Index: "columns df = Index ls \<Longrightarrow> labels df = ls"
  by (simp add: labels_def)

lemma labels_loc_cols: "labels (loc_cols m df) = select_mask m (labels df)"
  by (simp add: loc_cols_def labels_def)

lemma labels_normalize_labels:
  "labels (normalize_labels df) = map (\<lambda>c. PStr (py_norm c)) (labels df)"
  by (simp add: normalize_labels_def labels_def set_columns_def)

lemma labels_iloc_from1_reset: "labels (iloc_from1_reset df) = labels df"
  by (simp add: iloc_from1_reset_def labels_def)

lemma labels_filter_rows: "labels (filter_rows m df) = labels df"
  by (simp add: filter_rows_def labels_def)

lemma labels_setitem: "labels (setitem c vs df) = labels df"
  by (simp add: setitem_def labels_def)

lemma labels_promote_header:
  "labels (promote_header df) = (if promotes df then map PStr (row0 df) else labels df)"
  by (simp add: promote_header_def iloc_from1_reset_def labels_def set_columns_def)

subsection \<open>Flat headers and normal labels\<close>

lemma flat_loc_cols: "\<not> is_MultiIndex (columns (loc_cols m df))"
  by (simp add: loc_cols_def)

lemma flat_normalize_labels: "\<not> is_MultiIndex (columns (normalize_labels df))"
  by (simp add: normalize_labels_def set_columns_def)

lemma flat_promote_header:
  "\<not> is_MultiIndex (columns df) \<Longrightarrow> \<not> is_MultiIndex (columns (promote_header df))"
  by (simp add: promote_header_def iloc_from1_reset_def set_columns_def)

lemma flat_columns: "\<not> is_MultiIndex (columns df) \<Longrightarrow> columns df = Index (labels df)"
  by (cases "columns df") (simp_all add: labels_def)

lemma normalize_labels_fix:
  assumes "\<not> is_MultiIndex (columns df)" and "\<forall>l \<in> set (labels df). PStr (py_norm l) = l"
  shows "normalize_labels df = df"
proof -
  have "map (\<lambda>c. PStr (py_norm c)) (labels df) = labels df"
    using assms(2) by (simp add: map_idI)
  then show ?thesis
    using flat_columns [OF assms(1)] by (simp add: normalize_labels_def set_columns_def)
qed

lemma normal_before_promotion:
  "\<forall>l \<in> set (labels (before_promotion df)). PStr (py_norm l) = l"
proof -
  have "set (labels (before_promotion df)) \<subseteq> set (labels (normalize_labels (flatten_header df)))"
    by (simp add: before_promotion_def drop_unnamed_def labels_loc_cols set_select_mask)
  then show ?thesis by (auto simp add: labels_normalize_labels py_norm_idem)
qed

lemma normal_promote_header:
  assumes "\<forall>l \<in> set (labels df). PStr (py_norm l) = l"
  shows "\<forall>l \<in> set (labels (promote_header df)). PStr (py_norm l) = l"
  using assms by (auto simp add: labels_promote_header row0_def py_norm_idem)

lemma flat_before_promotion: "\<not> is_MultiIndex (columns (before_promotion df))"
  by (simp add: before_promotion_def drop_unnamed_def flat_loc_cols)

lemma renormalize_noop:
  "normalize_labels (promote_header (before_promotion df)) = promote_header (before_promotion df)"
  by (intro normalize_labels_fix flat_promote_header flat_before_promotion
      normal_promote_header normal_before_promotion)

lemma labels_prepare: "labels (prepare df) = candidate_labels df"
  unfolding prepare_def candidate_labels_def renormalize_noop
  by (simp add: before_promotion_def)

subsection \<open>The canonical names\<close>

lemma distinct_CANON: "distinct CANON"
  by (simp add: CANON_def ascii_def)

lemma length_CANON: "length CANON = 8"
  by (simp add: CANON_def)

lemma length_present_card:
  "length (present df) = card (PStr ` CANON_SET \<inter> set (labels df))"
proof -
  have "length (present df) = card ({c. PStr c \<in> set (labels df)} \<inter> set CANON)"
    unfolding present_def using distinct_CANON by (rule distinct_length_filter)
  also have "\<dots> = card (PStr ` ({c. PStr c \<in> set (labels df)} \<inter> set CANON))"
    by (simp add: card_image inj_on_def)
  also have "PStr ` ({c. PStr c \<in> set (labels df)} \<inter> set CANON) = PStr ` CANON_SET \<inter> set (labels df)"
    by (auto simp add: CANON_SET_def)
  finally show ?thesis .
qed

lemma clean_as_prepare:
  "clean_table_to_stock_schema df =
     (if length (present (prepare df)) < 6 then None else Some (scrip_cleanup (projected df)))"
  by (simp add: clean_table_to_stock_schema_def schema_tail_def prepare_def projected_def Let_def)

text \<open>
  C1. The normaliser returns \<open>None\<close> (the table is rejected) exactly when fewer than 6
  of the 8 canonical field names occur among the column labels left by header flattening,
  label normalisation, dropping of the unnamed columns, promotion of a header found in
  the first row, and dropping of duplicate labels.
\<close>

theorem C1_rejected_iff:
  "clean_table_to_stock_schema df = None \<longleftrightarrow>
     card (PStr ` CANON_SET \<inter> set (candidate_labels df)) < 6"
  by (simp add: clean_as_prepare length_present_card labels_prepare)


subsection \<open>Evaluating the examples\<close>

lemmas string_eval =
  ascii_def text_cell_def NaN_def py_norm_def py_upper_def upper_cp_ascii py_strip_def
  py_replace_def isspace_def startswith_def CANON_def CANON_SET_def

lemmas frame_eval =
  labels_def len_def set_columns_def loc_cols_def filter_rows_def iloc0_def
  iloc_from1_reset_def duplicated_def getitem_cols_def getitem_def setitem_def
  astype_str_def str_strip_def str_upper_def str_startswith_def

lemmas clean_eval =
  clean_table_to_stock_schema_def schema_tail_def before_promotion_def flatten_header_def
  normalize_labels_def drop_unnamed_def row0_def hits_def promotes_def promote_header_def
  drop_duplicated_def present_def scrip_cleanup_def

lemma clean_ex_noise: "clean_table_to_stock_schema ex_noise = None"
  by (simp add: ex_noise_def clean_eval frame_eval string_eval)

lemma clean_ex_full: "clean_table_to_stock_schema ex_full = Some ex_full"
  by (simp add: ex_full_def clean_eval frame_eval string_eval)


lemma clean_ex_six:
  "clean_table_to_stock_schema ex_six =
     Some \<lparr>columns = Index (map text_cell
              [''SCRIP'', ''LDCP'', ''OPEN'', ''HIGH'', ''LOW'', ''VOLUME'']),
           index = [0, 1],
           data = [[text_cell ''BBB'', text_cell ''CCC''], [PFloat (ascii ''1.5''), NaN],
                   [text_cell ''1'', text_cell ''2''], [text_cell ''3'', text_cell ''4''],
                   [text_cell ''5'', text_cell ''6''], [PInt 500, PInt 70]]\<rparr>"
  by (simp add: ex_six_def clean_eval frame_eval string_eval)

lemma clean_ex_repeat:
  "clean_table_to_stock_schema ex_repeat =
     Some \<lparr>columns = Index (map text_cell
              [''SCRIP'', ''LDCP'', ''OPEN'', ''HIGH'', ''LOW'', ''CURRENT'']),
           index = [0, 2],
           data = [[text_cell ''AAA'', text_cell ''7''], [text_cell ''1'', text_cell ''2''],
                   [text_cell ''1'', text_cell ''2''], [text_cell ''1'', text_cell ''2''],
                   [text_cell ''1'', text_cell ''2''], [text_cell ''1'', text_cell ''2'']]\<rparr>"
  by (simp add: ex_repeat_def clean_eval frame_eval string_eval str_int_def dec.simps)


subsection \<open>Header flattening\<close>

lemma flatten_header_MultiIndex:
  "columns df = MultiIndex ts \<Longrightarrow> flatten_header df = df\<lparr>columns := Index (map snd ts)\<rparr>"
  by (simp add: flatten_header_def)

lemma flatten_header_Index: "flatten_header (df\<lparr>columns := Index ls\<rparr>) = df\<lparr>columns := Index ls\<rparr>"
  by (simp add: flatten_header_def)

text \<open>
  C7. For a table with a multi-level header, the normaliser gives the same result as on
  the same table with its header already flattened to the innermost labels.
\<close>

theorem C7_flattening_commutes:
  assumes "columns df = MultiIndex ts"
  shows "clean_table_to_stock_schema df =
         clean_table_to_stock_schema (df\<lparr>columns := Index (map snd ts)\<rparr>)"
  using flatten_header_MultiIndex [OF assms]
  by (simp add: clean_table_to_stock_schema_def before_promotion_def flatten_header_Index)

theorem C7_flattening_commutes_witness:
  "columns ex_multi = MultiIndex ex_multi_header \<and>
   clean_table_to_stock_schema ex_multi =
     clean_table_to_stock_schema (ex_multi\<lparr>columns := Index (map snd ex_multi_header)\<rparr>) \<and>
   clean_table_to_stock_schema (ex_multi\<lparr>columns := Index (map snd ex_multi_header)\<rparr>) =
     Some \<lparr>columns = Index (map text_cell
              [''SCRIP'', ''LDCP'', ''OPEN'', ''HIGH'', ''LOW'', ''CURRENT'']),
           index = [0],
           data = map (\<lambda>s. [text_cell s]) [''AAA'', ''1'', ''2'', ''3'', ''4'', ''5'']\<rparr>"
proof -
  have h: "columns ex_multi = MultiIndex ex_multi_header"
    by (simp add: ex_multi_def)
  have v: "clean_table_to_stock_schema (ex_multi\<lparr>columns := Index (map snd ex_multi_header)\<rparr>) =
     Some \<lparr>columns = Index (map text_cell
              [''SCRIP'', ''LDCP'', ''OPEN'', ''HIGH'', ''LOW'', ''CURRENT'']),
           index = [0],
           data = map (\<lambda>s. [text_cell s]) [''AAA'', ''1'', ''2'', ''3'', ''4'', ''5'']\<rparr>"
    by (simp add: ex_multi_def ex_multi_header_def clean_eval frame_eval string_eval)
  show ?thesis using h v C7_flattening_commutes [OF h] by simp
qed

subsection \<open>The aggregator's loop\<close>

lemma clean_loop_accepted:
  "clean_loop ts (cleaned, skipped) =
     (cleaned @ accepted ts, skipped + length (filter (\<lambda>t. clean_table_to_stock_schema t = None) ts))"
proof (induction ts arbitrary: cleaned skipped)
  case Nil
  show ?case by (simp add: accepted_def map_filter_simps)
next
  case (Cons t ts)
  show ?case
  proof (cases "clean_table_to_stock_schema t")
    case None
    then show ?thesis using Cons.IH [of cleaned "skipped + 1"]
      by (simp add: accepted_def map_filter_simps)
  next
    case (Some fixed)
    then show ?thesis using Cons.IH [of "cleaned @ [fixed]" skipped]
      by (simp add: accepted_def map_filter_simps)
  qed
qed

lemma accepted_Nil_iff:
  "accepted ts = [] \<longleftrightarrow> (\<forall>t \<in> set ts. clean_table_to_stock_schema t = None)"
  by (induction ts) (auto simp add: accepted_def map_filter_simps split: option.splits)

lemma save_all_accepted:
  "save_all_tables_single_sheet tables out_dir excel_name =
     (if accepted tables = [] then (None, [])
      else (Some (pd_concat (accepted tables)),
            [Mkdir out_dir,
             ToExcel out_dir excel_name (ascii ''AllData'') (pd_concat (accepted tables))]))"
proof (cases "tables = []")
  case True
  then show ?thesis
    by (simp add: save_all_tables_single_sheet_def accepted_def map_filter_simps)
next
  case False
  then show ?thesis
    by (simp add: save_all_tables_single_sheet_def clean_loop_accepted Let_def)
qed

text \<open>
  C4. When the input list is empty, or the normaliser rejects every table of it, the
  aggregator returns \<open>None\<close> and asks nothing of the file system: no directory is
  created and no file is written.
\<close>

theorem C4_nothing_accepted:
  assumes "tables = [] \<or> (\<forall>t \<in> set tables. clean_table_to_stock_schema t = None)"
  shows "save_all_tables_single_sheet tables out_dir excel_name = (None, [])"
proof -
  from assms have "accepted tables = []"
    by (auto simp add: accepted_Nil_iff)
  then show ?thesis by (simp add: save_all_accepted)
qed

theorem C4_nothing_accepted_witness:
  "clean_table_to_stock_schema ex_noise = None \<and>
   save_all_tables_single_sheet [ex_noise, ex_noise] (ascii ''psx_output'')
     (ascii ''psx_stocks_single_sheet.xlsx'') = (None, []) \<and>
   save_all_tables_single_sheet [] (ascii ''psx_output'')
     (ascii ''psx_stocks_single_sheet.xlsx'') = (None, [])"
  using C4_nothing_accepted [of "[ex_noise, ex_noise]" "ascii ''psx_output''"
      "ascii ''psx_stocks_single_sheet.xlsx''"]
    C4_nothing_accepted [of "[]" "ascii ''psx_output''" "ascii ''psx_stocks_single_sheet.xlsx''"]
  by (simp add: clean_ex_noise)


subsection \<open>Rectangular frames stay rectangular\<close>

lemma width_flat: "\<not> is_MultiIndex (columns df) \<Longrightarrow> width (columns df) = length (labels df)"
  by (cases "columns df") (simp_all add: labels_def)

lemma flat_flatten_header: "\<not> is_MultiIndex (columns (flatten_header df))"
  by (cases "columns df") (simp_all add: flatten_header_def)

lemma wf_flatten_header: "wf df \<Longrightarrow> wf (flatten_header df)"
  by (cases "columns df") (simp_all add: flatten_header_def wf_def len_def)

lemma wf_normalize_labels:
  "wf df \<Longrightarrow> \<not> is_MultiIndex (columns df) \<Longrightarrow> wf (normalize_labels df)"
  by (simp add: wf_def normalize_labels_def set_columns_def len_def width_flat)

lemma list_all_select_mask: "list_all P xs \<Longrightarrow> list_all P (select_mask m xs)"
  using set_select_mask [of m xs] by (auto simp add: list_all_iff)

lemma wf_loc_cols:
  assumes "wf df" and "\<not> is_MultiIndex (columns df)"
  shows "wf (loc_cols m df)"
proof -
  have "length (data df) = length (labels df)"
    using assms by (simp add: wf_def width_flat)
  then have "length (select_mask m (data df)) = length (select_mask m (labels df))"
    by (rule length_select_mask_cong)
  moreover have "list_all (\<lambda>d. length d = length (index df)) (select_mask m (data df))"
    using assms(1) by (intro list_all_select_mask) (simp add: wf_def len_def)
  ultimately show ?thesis by (simp add: wf_def loc_cols_def len_def labels_def)
qed

lemma wf_iloc_from1_reset: "wf df \<Longrightarrow> wf (iloc_from1_reset df)"
  by (simp add: wf_def iloc_from1_reset_def len_def list_all_iff)

lemma wf_set_columns:
  "wf df \<Longrightarrow> length ls = length (data df) \<Longrightarrow> wf (set_columns ls df)"
  by (simp add: wf_def set_columns_def len_def)

lemma wf_promote_header: "wf df \<Longrightarrow> wf (promote_header df)"
  by (simp add: promote_header_def wf_iloc_from1_reset wf_set_columns row0_def iloc0_def)

lemma wf_before_promotion: "wf df \<Longrightarrow> wf (before_promotion df)"
  unfolding before_promotion_def drop_unnamed_def
  by (intro wf_loc_cols wf_normalize_labels wf_flatten_header flat_flatten_header
      flat_normalize_labels)

lemma flat_prepare: "\<not> is_MultiIndex (columns (prepare df))"
  by (simp add: prepare_def drop_duplicated_def flat_loc_cols)

lemma wf_prepare: "wf df \<Longrightarrow> wf (prepare df)"
  unfolding prepare_def drop_duplicated_def renormalize_noop
  by (intro wf_loc_cols wf_promote_header wf_before_promotion flat_promote_header
      flat_before_promotion)

lemma wf_getitem_cols:
  assumes "wf df"
  shows "wf (getitem_cols cs df)"
proof -
  define sel where
    "sel = concat (map (\<lambda>c. filter (\<lambda>(l, d). l = c) (zip (labels df) (data df))) cs)"
  have "set (map snd sel) \<subseteq> set (data df)"
    unfolding sel_def by (auto dest: set_zip_rightD)
  then have "list_all (\<lambda>d. length d = length (index df)) (map snd sel)"
    using assms unfolding wf_def len_def list_all_iff by blast
  then show ?thesis
    by (simp add: getitem_cols_def wf_def len_def sel_def [symmetric] Let_def)
qed

lemma wf_filter_rows:
  assumes "wf df"
  shows "wf (filter_rows m df)"
proof -
  have "\<forall>d \<in> set (data df). length (select_mask m d) = length (select_mask m (index df))"
    using assms by (auto simp add: wf_def len_def list_all_iff intro: length_select_mask_cong)
  then show ?thesis
    using assms by (simp add: wf_def filter_rows_def len_def list_all_iff)
qed

lemma wf_setitem:
  assumes "wf df" and "length vs = len df" and "\<not> is_MultiIndex (columns df)"
  shows "wf (setitem c vs df)"
proof -
  have l: "length (data df) = length (labels df)"
    using assms(1,3) by (simp add: wf_def width_flat)
  have "\<forall>p \<in> set (zip (labels df) (data df)). length (snd p) = len df"
    using assms(1) by (auto simp add: wf_def list_all_iff dest: set_zip_rightD)
  then have a: "list_all (\<lambda>d. length d = len df)
      (map (\<lambda>(l, d). if l = c then vs else d) (zip (labels df) (data df)))"
    using assms(2) by (auto simp add: list_all_iff)
  show ?thesis using a l width_flat [OF assms(3)]
    by (simp add: wf_def setitem_def len_def)
qed


subsection \<open>Dropping duplicate labels\<close>

lemma set_dedupe_from:
  "set (select_mask (map Not (duplicated_from seen xs)) xs) = set xs - set seen"
  by (induction xs arbitrary: seen) auto

lemma distinct_dedupe_from:
  "distinct (select_mask (map Not (duplicated_from seen xs)) xs)"
  by (induction xs arbitrary: seen) (auto simp add: set_dedupe_from)


lemma distinct_labels_drop_duplicated: "distinct (labels (drop_duplicated df))"
  by (simp add: drop_duplicated_def labels_loc_cols duplicated_def distinct_dedupe_from)

lemma distinct_labels_prepare: "distinct (labels (prepare df))"
  by (simp add: prepare_def distinct_labels_drop_duplicated)

subsection \<open>Selecting columns by label\<close>

lemma filter_zip_unique:
  "distinct ls \<Longrightarrow> length ds = length ls \<Longrightarrow> c \<in> set ls \<Longrightarrow>
   \<exists>d. filter (\<lambda>(l, d). l = c) (zip ls ds) = [(c, d)]"
proof (induction ls arbitrary: ds)
  case Nil
  then show ?case by simp
next
  case (Cons l ls)
  then obtain d ds' where ds: "ds = d # ds'" by (cases ds) auto
  show ?case
  proof (cases "l = c")
    case True
    then have "c \<notin> set ls" using Cons.prems(1) by simp
    then have "filter (\<lambda>(l, d). l = c) (zip ls ds') = []"
      by (auto simp add: filter_empty_conv dest: set_zip_leftD)
    then show ?thesis using True ds by simp
  next
    case False
    then show ?thesis using Cons ds by auto
  qed
qed

lemma filter_zip_absent:
  "c \<notin> set ls \<Longrightarrow> filter (\<lambda>(l, d). l = c) (zip ls ds) = []"
  by (auto simp add: filter_empty_conv dest: set_zip_leftD)

lemma labels_getitem_cols:
  assumes "distinct (labels df)" and "length (data df) = length (labels df)"
    and "set cs \<subseteq> set (labels df)"
  shows "labels (getitem_cols cs df) = cs"
proof -
  have "map fst (concat (map (\<lambda>c. filter (\<lambda>(l, d). l = c) (zip (labels df) (data df))) cs)) = cs"
    using assms(3)
  proof (induction cs)
    case Nil
    then show ?case by simp
  next
    case (Cons c cs)
    then obtain d where "filter (\<lambda>(l, d). l = c) (zip (labels df) (data df)) = [(c, d)]"
      using filter_zip_unique [OF assms(1,2), of c] by auto
    then show ?case using Cons by simp
  qed
  then show ?thesis by (simp add: getitem_cols_def labels_def Let_def)
qed

lemma set_present: "PStr ` set (present df) \<subseteq> set (labels df)"
  by (auto simp add: present_def)

lemma labels_projected:
  assumes "wf df"
  shows "labels (projected df) = map PStr (present (prepare df))"
proof -
  have "length (data (prepare df)) = length (labels (prepare df))"
    using wf_prepare [OF assms] flat_prepare [of df] by (simp add: wf_def width_flat)
  then show ?thesis
    unfolding projected_def using set_present [of "prepare df"]
    by (intro labels_getitem_cols distinct_labels_prepare) auto
qed

lemma flat_getitem_cols: "\<not> is_MultiIndex (columns (getitem_cols cs df))"
  by (simp add: getitem_cols_def Let_def)

lemma wf_projected: "wf df \<Longrightarrow> wf (projected df)"
  by (simp add: projected_def wf_getitem_cols wf_prepare)

subsection \<open>The SCRIP column\<close>

lemma labels_scrip_cleanup: "labels (scrip_cleanup out) = labels out"
  by (simp add: scrip_cleanup_def labels_filter_rows labels_setitem Let_def)

lemma getitem_in_data: "c \<in> set (labels df) \<Longrightarrow> length (data df) = length (labels df) \<Longrightarrow>
  getitem c df \<in> set (data df)"
proof -
  assume c: "c \<in> set (labels df)" and l: "length (data df) = length (labels df)"
  then have "c \<in> fst ` set (zip (labels df) (data df))"
    by (metis map_fst_zip set_map)
  then have "filter (\<lambda>(l, d). l = c) (zip (labels df) (data df)) \<noteq> []"
    by (auto simp add: filter_empty_conv)
  then obtain l' d rest where f: "filter (\<lambda>(l, d). l = c) (zip (labels df) (data df)) = (l', d) # rest"
    by (cases "filter (\<lambda>(l, d). l = c) (zip (labels df) (data df))") auto
  then have "(l', d) \<in> set (zip (labels df) (data df))"
    by (metis filter_is_subset list.set_intros(1) subsetD)
  then show ?thesis using f by (auto simp add: getitem_def dest: set_zip_rightD)
qed

lemma length_getitem:
  assumes "wf df" and "\<not> is_MultiIndex (columns df)" and "c \<in> set (labels df)"
  shows "length (getitem c df) = len df"
proof -
  have "length (data df) = length (labels df)"
    using assms(1,2) by (simp add: wf_def width_flat)
  from getitem_in_data [OF assms(3) this] show ?thesis
    using assms(1) by (auto simp add: wf_def list_all_iff)
qed

lemma wf_scrip_cleanup:
  assumes "wf out" and "\<not> is_MultiIndex (columns out)"
  shows "wf (scrip_cleanup out)"
proof (cases "PStr (ascii ''SCRIP'') \<in> set (labels out)")
  case True
  have "length (str_strip (astype_str (getitem (PStr (ascii ''SCRIP'')) out))) = len out"
    using length_getitem [OF assms True] by (simp add: str_strip_def astype_str_def)
  then show ?thesis
    using True assms by (simp add: scrip_cleanup_def Let_def wf_filter_rows wf_setitem)
next
  case False
  then show ?thesis using assms by (simp add: scrip_cleanup_def)
qed

lemma first_match_map:
  "(case filter (\<lambda>(l, d). l = c) (map (\<lambda>(l, d). (l, f d)) ps) of
      [] \<Rightarrow> [] | (l, d) # _ \<Rightarrow> d) =
   (case filter (\<lambda>(l, d). l = c) ps of [] \<Rightarrow> f [] | (l, d) # _ \<Rightarrow> f d)"
  if "f [] = []"
  using that by (induction ps) auto

lemma getitem_filter_rows: "getitem c (filter_rows m df) = select_mask m (getitem c df)"
proof -
  define ps where "ps = zip (labels df) (data df)"
  have "zip (labels (filter_rows m df)) (data (filter_rows m df)) =
        map (\<lambda>(l, d). (l, select_mask m d)) ps"
    by (simp add: labels_filter_rows ps_def zip_map2) (simp add: filter_rows_def zip_map2)
  then have "getitem c (filter_rows m df) =
        (case filter (\<lambda>(l, d). l = c) (map (\<lambda>(l, d). (l, select_mask m d)) ps) of
           [] \<Rightarrow> [] | (l, d) # _ \<Rightarrow> d)"
    by (simp only: getitem_def)
  also have "\<dots> = (case filter (\<lambda>(l, d). l = c) ps of
           [] \<Rightarrow> select_mask m [] | (l, d) # _ \<Rightarrow> select_mask m d)"
    by (rule first_match_map) (rule select_mask_Nil2)
  also have "\<dots> = select_mask m (getitem c df)"
    by (simp add: getitem_def ps_def select_mask_Nil2 split: list.splits)
  finally show ?thesis .
qed

lemma py_upper_SCRIP: "py_upper (ascii ''SCRIP'') = ascii ''SCRIP''"
  by (simp add: string_eval)

lemma no_SCRIP_cell:
  "PStr (ascii ''SCRIP'') \<notin> set (getitem (PStr (ascii ''SCRIP'')) (scrip_cleanup out))"
proof (cases "PStr (ascii ''SCRIP'') \<in> set (labels out)")
  case True
  define out1 where "out1 = setitem (PStr (ascii ''SCRIP''))
      (str_strip (astype_str (getitem (PStr (ascii ''SCRIP'')) out))) out"
  define g where "g = getitem (PStr (ascii ''SCRIP'')) out1"
  have "scrip_cleanup out =
      filter_rows (map (\<lambda>v. PStr (py_upper (py_str v)) \<noteq> PStr (ascii ''SCRIP'')) g) out1"
    using True by (simp add: scrip_cleanup_def out1_def g_def Let_def str_upper_def comp_def)
  then have "getitem (PStr (ascii ''SCRIP'')) (scrip_cleanup out) =
      filter (\<lambda>v. PStr (py_upper (py_str v)) \<noteq> PStr (ascii ''SCRIP'')) g"
    by (simp add: getitem_filter_rows g_def [symmetric] select_mask_filter)
  then show ?thesis by (auto simp add: py_upper_SCRIP)
next
  case False
  then show ?thesis
    by (simp add: scrip_cleanup_def getitem_def filter_zip_absent)
qed


subsection \<open>The shape of an accepted table\<close>

lemma present_of_present:
  "filter (\<lambda>c. PStr c \<in> PStr ` set (present df)) CANON = present df"
proof -
  have "(\<lambda>c. PStr c \<in> PStr ` set (present df)) = (\<lambda>c. c \<in> set (present df))"
    by auto
  then have "filter (\<lambda>c. PStr c \<in> PStr ` set (present df)) CANON =
             filter (\<lambda>c. c \<in> set (present df)) CANON"
    by simp
  also have "\<dots> = filter (\<lambda>c. PStr c \<in> set (labels df)) CANON"
    by (rule filter_cong) (auto simp add: present_def)
  finally show ?thesis by (simp add: present_def)
qed

lemma clean_Some:
  assumes "clean_table_to_stock_schema df = Some out"
  shows "6 \<le> length (present (prepare df))" and "out = scrip_cleanup (projected df)"
  using assms by (auto simp add: clean_as_prepare split: if_splits)

lemma wf_clean:
  assumes "wf df" and "clean_table_to_stock_schema df = Some out"
  shows "wf out"
  using clean_Some(2) [OF assms(2)] wf_projected [OF assms(1)]
  by (simp add: wf_scrip_cleanup projected_def flat_getitem_cols)

lemma flat_clean:
  assumes "clean_table_to_stock_schema df = Some out"
  shows "\<not> is_MultiIndex (columns out)"
proof -
  have "columns (scrip_cleanup (projected df)) = columns (projected df)"
    by (simp add: scrip_cleanup_def filter_rows_def setitem_def Let_def)
  then show ?thesis
    using clean_Some(2) [OF assms] by (simp add: projected_def flat_getitem_cols)
qed

lemma labels_clean:
  assumes "wf df" and "clean_table_to_stock_schema df = Some out"
  shows "labels out = map PStr (present (prepare df))"
  using clean_Some(2) [OF assms(2)] labels_projected [OF assms(1)]
  by (simp add: labels_scrip_cleanup)

text \<open>
  C2. A table the normaliser accepts (from a rectangular input) has between 6 and 8
  columns; every label is one of the 8 canonical names; the labels are the canonical
  names present, in the order of the canonical list; no label occurs twice; and no cell
  of the SCRIP column is the text \<open>SCRIP\<close>.
\<close>

theorem C2_accepted_shape:
  assumes "wf df" and "clean_table_to_stock_schema df = Some out"
  shows "6 \<le> length (labels out) \<and> length (labels out) \<le> 8 \<and>
         length (data out) = length (labels out) \<and>
         set (labels out) \<subseteq> PStr ` CANON_SET \<and>
         labels out = map PStr (filter (\<lambda>c. PStr c \<in> set (labels out)) CANON) \<and>
         distinct (labels out) \<and>
         PStr (ascii ''SCRIP'') \<notin> set (getitem (PStr (ascii ''SCRIP'')) out)"
proof -
  let ?P = "present (prepare df)"
  have l: "labels out = map PStr ?P" using assms by (rule labels_clean)
  have six: "6 \<le> length (labels out)" using clean_Some(1) [OF assms(2)] l by simp
  have "length ?P \<le> length CANON" unfolding present_def by (rule length_filter_le)
  then have eight: "length (labels out) \<le> 8" using l by (simp add: length_CANON)
  have cols: "length (data out) = length (labels out)"
    using wf_clean [OF assms] flat_clean [OF assms(2)] by (simp add: wf_def width_flat)
  have sub: "set (labels out) \<subseteq> PStr ` CANON_SET"
    using l by (auto simp add: present_def CANON_SET_def)
  have ord: "labels out = map PStr (filter (\<lambda>c. PStr c \<in> set (labels out)) CANON)"
    using l present_of_present [of "prepare df"] by simp
  have "distinct ?P" unfolding present_def using distinct_CANON by (rule distinct_filter)
  then have dis: "distinct (labels out)" using l by (simp add: distinct_map inj_on_def)
  have scrip: "PStr (ascii ''SCRIP'') \<notin> set (getitem (PStr (ascii ''SCRIP'')) out)"
    using clean_Some(2) [OF assms(2)] no_SCRIP_cell [of "projected df"] by simp
  from six eight cols sub ord dis scrip show ?thesis by blast
qed

lemma wf_ex_six: "wf ex_six"
  by (simp add: wf_def ex_six_def len_def)

lemma clean_ex_six_out: "clean_table_to_stock_schema ex_six = Some ex_six_out"
  by (simp add: clean_ex_six ex_six_out_def)

theorem C2_accepted_shape_witness:
  "wf ex_six \<and> clean_table_to_stock_schema ex_six = Some ex_six_out \<and>
   6 \<le> length (labels ex_six_out) \<and> length (labels ex_six_out) \<le> 8 \<and>
   length (data ex_six_out) = length (labels ex_six_out) \<and>
   set (labels ex_six_out) \<subseteq> PStr ` CANON_SET \<and>
   labels ex_six_out = map PStr (filter (\<lambda>c. PStr c \<in> set (labels ex_six_out)) CANON) \<and>
   distinct (labels ex_six_out) \<and>
   PStr (ascii ''SCRIP'') \<notin> set (getitem (PStr (ascii ''SCRIP'')) ex_six_out) \<and>
   labels ex_six_out =
     map text_cell [''SCRIP'', ''LDCP'', ''OPEN'', ''HIGH'', ''LOW'', ''VOLUME'']"
proof -
  have "labels ex_six_out =
      map text_cell [''SCRIP'', ''LDCP'', ''OPEN'', ''HIGH'', ''LOW'', ''VOLUME'']"
    by (simp add: ex_six_out_def labels_def)
  then show ?thesis
    using C2_accepted_shape [OF wf_ex_six clean_ex_six_out] wf_ex_six clean_ex_six_out
    by blast
qed


subsection \<open>Row labels through the steps\<close>









subsection \<open>Promotion of the first row\<close>








subsection \<open>Tables without rows\<close>








subsection \<open>The concatenation\<close>


lemma index_pd_concat: "index (pd_concat dfs) = map int [0..<len (pd_concat dfs)]"
  by (simp add: pd_concat_def len_def Let_def)






subsection \<open>Rows of a frame\<close>

lemma select_mask_Cons_nonempty:
  "d \<noteq> [] \<Longrightarrow>
   select_mask (b # bs) d = (if b then hd d # select_mask bs (tl d) else select_mask bs (tl d))"
  by (cases d) auto

lemma rows_of_select_mask:
  assumes "length m = length idx" and "\<forall>d \<in> set ds. length d = length idx"
  shows "rows_of (select_mask m idx) (map (select_mask m) ds) = select_mask m (rows_of idx ds)"
  using assms
proof (induction idx arbitrary: m ds)
  case Nil
  then show ?case by (simp add: select_mask_Nil2)
next
  case (Cons i idx)
  then obtain b bs where m: "m = b # bs" and bs: "length bs = length idx"
    by (cases m) auto
  have ne: "\<forall>d \<in> set ds. d \<noteq> []" using Cons.prems(2) by auto
  have tl: "\<forall>d \<in> set (map tl ds). length d = length idx" using Cons.prems(2) by auto
  have IH: "rows_of (select_mask bs idx) (map (select_mask bs) (map tl ds)) =
            select_mask bs (rows_of idx (map tl ds))"
    using Cons.IH [OF bs tl] .
  show ?case
  proof (cases b)
    case True
    have e: "map (select_mask (b # bs)) ds = map (\<lambda>d. hd d # select_mask bs (tl d)) ds"
      using ne True by (auto simp add: select_mask_Cons_nonempty)
    show ?thesis unfolding m e using True IH by (simp add: comp_def)
  next
    case False
    have e: "map (select_mask (b # bs)) ds = map (\<lambda>d. select_mask bs (tl d)) ds"
      using ne False by (auto simp add: select_mask_Cons_nonempty)
    show ?thesis unfolding m e using False IH by (simp add: comp_def)
  qed
qed

lemma rows_of_map_first:
  "length d0 = length idx \<Longrightarrow>
   rows_of idx (map f d0 # ds) = map (\<lambda>(i, r). (i, f (hd r) # tl r)) (rows_of idx (d0 # ds))"
proof (induction idx arbitrary: d0 ds)
  case Nil
  then show ?case by simp
next
  case (Cons i idx)
  then obtain v vs where d0: "d0 = v # vs" and vs: "length vs = length idx"
    by (cases d0) auto
  show ?case using Cons.IH [OF vs, of "map tl ds"] by (simp add: d0)
qed

lemma first_column_as_rows:
  "length d0 = length idx \<Longrightarrow>
   map p d0 = map (\<lambda>(i, r). p (hd r)) (rows_of idx (d0 # ds))"
proof (induction idx arbitrary: d0 ds)
  case Nil
  then show ?case by simp
next
  case (Cons i idx)
  then obtain v vs where d0: "d0 = v # vs" and vs: "length vs = length idx"
    by (cases d0) auto
  show ?case using Cons.IH [OF vs, of "map tl ds"] by (simp add: d0)
qed

lemma length_rows_of: "length (rows_of idx ds) = length idx"
  by (induction idx arbitrary: ds) auto


subsection \<open>The clean-up of the SCRIP column, row by row\<close>

lemma present_scrip_first:
  assumes "ascii ''SCRIP'' \<in> set (present df)"
  shows "\<exists>rest. present df = ascii ''SCRIP'' # rest \<and> ascii ''SCRIP'' \<notin> set rest"
proof -
  have c: "CANON = ascii ''SCRIP'' # tl CANON" by (simp add: CANON_def)
  then have n: "ascii ''SCRIP'' \<notin> set (tl CANON)"
    using distinct_CANON by (metis distinct.simps(2))
  have q: "PStr (ascii ''SCRIP'') \<in> set (labels df)"
    using assms by (simp add: present_def)
  have "present df = filter (\<lambda>c. PStr c \<in> set (labels df)) (ascii ''SCRIP'' # tl CANON)"
    using c by (simp add: present_def)
  then have "present df = ascii ''SCRIP'' # filter (\<lambda>c. PStr c \<in> set (labels df)) (tl CANON)"
    using q by simp
  moreover have "ascii ''SCRIP'' \<notin> set (filter (\<lambda>c. PStr c \<in> set (labels df)) (tl CANON))"
    using n by simp
  ultimately show ?thesis by blast
qed

lemma setitem_other_columns:
  "c \<notin> set ls \<Longrightarrow> length ds = length ls \<Longrightarrow>
   map (\<lambda>(l, d). if l = c then vs else d) (zip ls ds) = ds"
proof (induction ls arbitrary: ds)
  case Nil
  then show ?case by simp
next
  case (Cons l ls)
  then show ?case by (cases ds) auto
qed

lemma scrip_cleanup_rows:
  assumes "wf X" and "\<not> is_MultiIndex (columns X)"
    and "labels X = PStr (ascii ''SCRIP'') # ls" and "PStr (ascii ''SCRIP'') \<notin> set ls"
  shows "rows (scrip_cleanup X) =
         map (\<lambda>(i, r). (i, PStr (py_strip (py_str (hd r))) # tl r))
           (filter (\<lambda>(i, r). py_upper (py_strip (py_str (hd r))) \<noteq> ascii ''SCRIP'')
              (rows X))"
proof -
  let ?S = "PStr (ascii ''SCRIP'')"
  let ?g = "\<lambda>v. PStr (py_strip (py_str v))"
  let ?keep = "\<lambda>v. py_upper (py_strip (py_str v)) \<noteq> ascii ''SCRIP''"
  have len_data: "length (data X) = Suc (length ls)"
    using assms(1,2,3) by (simp add: wf_def width_flat)
  then obtain d0 ds where data: "data X = d0 # ds" and ds: "length ds = length ls"
    by (cases "data X") auto
  have cols: "\<forall>d \<in> set (d0 # ds). length d = length (index X)"
    using assms(1) data by (simp add: wf_def len_def list_all_iff)
  then have d0: "length d0 = length (index X)" by simp
  have g0: "getitem ?S X = d0"
    by (simp add: getitem_def assms(3) data)
  define new where "new = map ?g d0"
  have new: "str_strip (astype_str (getitem ?S X)) = new"
    by (simp add: g0 str_strip_def astype_str_def new_def comp_def)
  define out1 where "out1 = setitem ?S new X"
  have data1: "data out1 = new # ds"
    using setitem_other_columns [OF assms(4) ds, of new]
    by (simp add: out1_def setitem_def assms(3) data)
  have labels1: "labels out1 = ?S # ls"
    by (simp add: out1_def labels_setitem assms(3))
  have index1: "index out1 = index X"
    by (simp add: out1_def setitem_def)
  have g1: "getitem ?S out1 = new"
    by (simp add: getitem_def labels1 data1)
  define m where "m = map ?keep d0"
  have mask: "map (\<lambda>v. v \<noteq> ?S) (str_upper (getitem ?S out1)) = m"
    by (simp add: g1 str_upper_def new_def m_def comp_def)
  have sc: "scrip_cleanup X = filter_rows m out1"
    using assms(3) by (simp add: scrip_cleanup_def new out1_def [symmetric] mask Let_def)
  have lm: "length m = length (index X)" by (simp add: m_def d0)
  have cols1: "\<forall>d \<in> set (new # ds). length d = length (index X)"
    using cols by (simp add: new_def)
  have "rows (scrip_cleanup X) =
        rows_of (select_mask m (index X)) (map (select_mask m) (new # ds))"
    by (simp only: sc rows_def filter_rows_def dataframe.simps data1 index1)
  also have "\<dots> = select_mask m (rows_of (index X) (new # ds))"
    using lm cols1 by (rule rows_of_select_mask)
  also have "rows_of (index X) (new # ds) =
        map (\<lambda>(i, r). (i, ?g (hd r) # tl r)) (rows_of (index X) (d0 # ds))"
    unfolding new_def using d0 by (rule rows_of_map_first)
  also have "select_mask m (map (\<lambda>(i, r). (i, ?g (hd r) # tl r)) (rows_of (index X) (d0 # ds))) =
        map (\<lambda>(i, r). (i, ?g (hd r) # tl r)) (select_mask m (rows_of (index X) (d0 # ds)))"
    by (rule select_mask_map)
  also have "m = map (\<lambda>(i, r). ?keep (hd r)) (rows_of (index X) (d0 # ds))"
    unfolding m_def using d0 by (rule first_column_as_rows)
  also have "select_mask (map (\<lambda>(i, r). ?keep (hd r)) (rows_of (index X) (d0 # ds)))
          (rows_of (index X) (d0 # ds)) =
        filter (\<lambda>(i, r). ?keep (hd r)) (rows_of (index X) (d0 # ds))"
    by (rule select_mask_filter)
  finally show ?thesis by (simp add: rows_def data)
qed

text \<open>
  C6. For an accepted table with a SCRIP column (the first column of the result), the
  rows of the result are the rows of the projected table (line 74), in order and with
  their row labels, except those whose SCRIP value, as trimmed text, is \<open>SCRIP\<close> in upper
  case; and in each row kept the SCRIP cell is replaced by its text, trimmed, the other
  cells being unchanged.
\<close>

theorem C6_scrip_rows:
  assumes "wf df" and "clean_table_to_stock_schema df = Some out"
    and "PStr (ascii ''SCRIP'') \<in> set (labels out)"
  shows "hd (labels out) = PStr (ascii ''SCRIP'') \<and>
         rows out =
           map (\<lambda>(i, r). (i, PStr (py_strip (py_str (hd r))) # tl r))
             (filter (\<lambda>(i, r). py_upper (py_strip (py_str (hd r))) \<noteq> ascii ''SCRIP'')
                (rows (projected df)))"
proof -
  have l: "labels out = map PStr (present (prepare df))" using assms(1,2) by (rule labels_clean)
  then have "ascii ''SCRIP'' \<in> set (present (prepare df))" using assms(3) by auto
  then obtain rest where rest: "present (prepare df) = ascii ''SCRIP'' # rest"
      and nr: "ascii ''SCRIP'' \<notin> set rest"
    using present_scrip_first by blast
  have lp: "labels (projected df) = PStr (ascii ''SCRIP'') # map PStr rest"
    using labels_projected [OF assms(1)] rest by simp
  have np: "PStr (ascii ''SCRIP'') \<notin> set (map PStr rest)" using nr by auto
  have fl: "\<not> is_MultiIndex (columns (projected df))"
    by (simp add: projected_def flat_getitem_cols)
  have "rows (scrip_cleanup (projected df)) =
           map (\<lambda>(i, r). (i, PStr (py_strip (py_str (hd r))) # tl r))
             (filter (\<lambda>(i, r). py_upper (py_strip (py_str (hd r))) \<noteq> ascii ''SCRIP'')
                (rows (projected df)))"
    using wf_projected [OF assms(1)] fl lp np by (rule scrip_cleanup_rows)
  moreover have "out = scrip_cleanup (projected df)" using assms(2) by (rule clean_Some(2))
  ultimately show ?thesis using l rest by simp
qed

end
